theory Spec2Isabelle
  imports Main
begin

section \<open>JavaScript values, strings and errors\<close>

text \<open>
  The relay is the serverless function of \<^verbatim>\<open>save-to-de.js\<close>; the widget is the
  browser script of the content block, which collects the form and posts it to the
  relay (an older variant of it writes to the data extension itself). Values that
  cross a JSON boundary are modelled by \<open>jsval\<close>. Numbers that occur in this program
  (epoch milliseconds, seconds of validity, HTTP statuses, row counts) are integers far
  below \<open>2^53\<close>, where JavaScript arithmetic is exact, so they are modelled by \<open>int\<close>
  and \<open>nat\<close>. Strings are modelled by \<open>string\<close>, its characters read as the code
  points U+0000 to U+00FF. Calls of \<^verbatim>\<open>console.log\<close> have no effect on the program and
  are left out.
\<close>

datatype jsval =
    JUndefined
  | JNull
  | JBool bool
  | JNum int
  | JStr string
  | JArr "jsval list"
  | JObj "(string \<times> jsval) list"

text \<open>
  What \<^verbatim>\<open>throw\<close> and a rejected promise carry. \<open>Error m\<close> is \<^verbatim>\<open>new Error(m)\<close>
  of the source; \<open>TypeError\<close> is raised by the engine on a property read of
  \<^verbatim>\<open>undefined\<close> or \<^verbatim>\<open>null\<close>, \<open>InvalidJson\<close> by \<^verbatim>\<open>response.json()\<close> on a body
  that is not JSON, \<open>FetchError m\<close> by \<^verbatim>\<open>fetch\<close> when the request itself fails. The
  message text of an error raised by the engine or the library is not modelled.
\<close>

datatype js_error = Error string | TypeError | InvalidJson | FetchError string

text \<open>ToBoolean.\<close>

fun truthy :: "jsval \<Rightarrow> bool" where
  "truthy JUndefined = False"
| "truthy JNull = False"
| "truthy (JBool b) = b"
| "truthy (JNum n) = (n \<noteq> 0)"
| "truthy (JStr s) = (s \<noteq> [])"
| "truthy (JArr xs) = True"
| "truthy (JObj kvs) = True"

text \<open>
  The own property \<open>k\<close> of an object parsed from JSON: the last occurrence of a key
  wins.
\<close>

definition own_prop :: "(string \<times> jsval) list \<Rightarrow> string \<Rightarrow> jsval" where
  "own_prop kvs k = (case map_of (rev kvs) k of None \<Rightarrow> JUndefined | Some v \<Rightarrow> v)"

text \<open>
  The property read \<^verbatim>\<open>v.k\<close>, used by the program only with the keys
  \<^verbatim>\<open>emailName\<close>, \<^verbatim>\<open>fields\<close>, \<^verbatim>\<open>name\<close> and \<^verbatim>\<open>value\<close>, none of which is a built-in
  property of a string, number, boolean or array.
\<close>

fun get_prop :: "jsval \<Rightarrow> string \<Rightarrow> js_error + jsval" where
  "get_prop JUndefined k = Inl TypeError"
| "get_prop JNull k = Inl TypeError"
| "get_prop (JObj kvs) k = Inr (own_prop kvs k)"
| "get_prop v k = Inr JUndefined"

fun isArray :: "jsval \<Rightarrow> bool" where
  "isArray (JArr xs) = True"
| "isArray v = False"

text \<open>The elements of an array.\<close>

fun elements :: "jsval \<Rightarrow> jsval list" where
  "elements (JArr xs) = xs"
| "elements v = []"

text \<open>A string or \<^verbatim>\<open>undefined\<close>, as an environment variable is.\<close>

definition falsy :: "string option \<Rightarrow> bool" where
  "falsy v = (case v of None \<Rightarrow> True | Some s \<Rightarrow> s = [])"

text \<open>\<^verbatim>\<open>a || b\<close> on such values.\<close>

definition or_else :: "string option \<Rightarrow> string option \<Rightarrow> string option" where
  "or_else a b = (if falsy a then b else a)"

text \<open>Interpolation into a template literal.\<close>

definition interp :: "string option \<Rightarrow> string" where
  "interp v = (case v of None \<Rightarrow> ''undefined'' | Some s \<Rightarrow> s)"

definition opt_val :: "string option \<Rightarrow> jsval" where
  "opt_val v = (case v of None \<Rightarrow> JUndefined | Some s \<Rightarrow> JStr s)"

subsection \<open>Numbers as text\<close>

definition digit :: "nat \<Rightarrow> char" where
  "digit d = ''0123456789'' ! (d mod 10)"

fun show_nat :: "nat \<Rightarrow> string" where
  "show_nat n = (if n < 10 then [digit n] else show_nat (n div 10) @ [digit n])"

declare show_nat.simps [simp del]

definition pad2 :: "nat \<Rightarrow> string" where
  "pad2 n = [digit (n div 10), digit n]"

definition pad3 :: "nat \<Rightarrow> string" where
  "pad3 n = [digit (n div 100), digit (n div 10), digit n]"

definition pad4 :: "nat \<Rightarrow> string" where
  "pad4 n = [digit (n div 1000), digit (n div 100), digit (n div 10), digit n]"

definition pad6 :: "nat \<Rightarrow> string" where
  "pad6 n = [digit (n div 100000), digit (n div 10000), digit (n div 1000),
             digit (n div 100), digit (n div 10), digit n]"

subsection \<open>\<^verbatim>\<open>Date.prototype.toISOString\<close>\<close>

text \<open>
  The year, month and day of a day number counted from 1970-01-01 in the proleptic
  Gregorian calendar, as ECMAScript's \<^verbatim>\<open>YearFromTime\<close>, \<^verbatim>\<open>MonthFromTime\<close> and
  \<^verbatim>\<open>DateFromTime\<close> give them. Integer division rounds toward minus infinity. The day
  number is split into a 400-year era and the day of that era (\<open>doe\<close>), the day into
  the year of the era (\<open>yoe\<close>) and the day of a year that starts on 1 March (\<open>doy\<close>),
  and that day into the month counted from March (\<open>mp\<close>) and the day of the month.
\<close>

definition civil_from_month :: "int \<Rightarrow> int \<Rightarrow> int \<Rightarrow> int \<times> nat \<times> nat" where
  "civil_from_month y doy mp =
     (if mp < 10 then (y, nat (mp + 3), nat (doy - (153 * mp + 2) div 5 + 1))
      else (y + 1, nat (mp - 9), nat (doy - (153 * mp + 2) div 5 + 1)))"

definition civil_from_year :: "int \<Rightarrow> int \<Rightarrow> int \<Rightarrow> int \<times> nat \<times> nat" where
  "civil_from_year era doe yoe =
     civil_from_month (yoe + era * 400)
       (doe - (365 * yoe + yoe div 4 - yoe div 100))
       ((5 * (doe - (365 * yoe + yoe div 4 - yoe div 100)) + 2) div 153)"

definition civil_from_era :: "int \<Rightarrow> int \<Rightarrow> int \<times> nat \<times> nat" where
  "civil_from_era era doe =
     civil_from_year era doe ((doe - doe div 1460 + doe div 36524 - doe div 146096) div 365)"

definition civil_from_days :: "int \<Rightarrow> int \<times> nat \<times> nat" where
  "civil_from_days days =
     civil_from_era ((days + 719468) div 146097) ((days + 719468) mod 146097)"

definition show_year :: "int \<Rightarrow> string" where
  "show_year y =
     (if 0 \<le> y \<and> y \<le> 9999 then pad4 (nat y)
      else (if y < 0 then ''-'' else ''+'') @ pad6 (nat \<bar>y\<bar>))"

fun iso_format :: "int \<times> nat \<times> nat \<Rightarrow> nat \<Rightarrow> string" where
  "iso_format (y, m, d) ms =
     show_year y @ ''-'' @ pad2 m @ ''-'' @ pad2 d @ ''T''
     @ pad2 (ms div 3600000) @ '':'' @ pad2 (ms div 60000 mod 60) @ '':''
     @ pad2 (ms div 1000 mod 60) @ ''.'' @ pad3 (ms mod 1000) @ ''Z''"

text \<open>
  \<^verbatim>\<open>new Date(t).toISOString()\<close> for a time value \<open>t\<close> in epoch milliseconds. The current
  time is always a valid time value, so the \<^verbatim>\<open>RangeError\<close> of an invalid date does not
  arise.
\<close>

definition toISOString :: "int \<Rightarrow> string" where
  "toISOString t = iso_format (civil_from_days (t div 86400000)) (nat (t mod 86400000))"

section \<open>Configuration, clock and network\<close>

record sfmc_config =
  clientId :: "string option"
  clientSecret :: "string option"
  subdomain :: "string option"
  accountId :: "string option"
  deExternalKey :: "string option"

text \<open>\<^verbatim>\<open>SFMC_CONFIG\<close>, read from \<^verbatim>\<open>process.env\<close> when the module is loaded.\<close>

definition SFMC_CONFIG :: "(string \<rightharpoonup> string) \<Rightarrow> sfmc_config" where
  "SFMC_CONFIG process_env =
     \<lparr> clientId = process_env ''SFMC_CLIENT_ID'',
       clientSecret = process_env ''SFMC_CLIENT_SECRET'',
       subdomain = process_env ''SFMC_SUBDOMAIN'',
       accountId = or_else (process_env ''SFMC_ACCOUNT_ID'') (process_env ''SFMC_MID''),
       deExternalKey = or_else (process_env ''DE_EXTERNAL_KEY'')
                         (Some ''D4344287-6DDF-49F6-B7A5-A7E0043A3C2C'') \<rparr>"

record http_request =
  url :: string
  http_method :: string
  headers :: "(string \<times> string) list"
  body :: jsval

text \<open>
  The outcome of \<^verbatim>\<open>fetch\<close>: the promise rejects, or it resolves to a response with a
  status, the body as text (\<^verbatim>\<open>response.text()\<close>) and the body as parsed JSON
  (\<^verbatim>\<open>response.json()\<close>, \<open>None\<close> when the body is not JSON and the call rejects).
  The \<open>body\<close> of a request is the value handed to \<^verbatim>\<open>JSON.stringify\<close>.
\<close>

datatype 'j fetch_result =
    Rejected string
  | Response (status: nat) (body_text: string) (body_json: "'j option")

definition ok :: "nat \<Rightarrow> bool" where
  "ok st = (200 \<le> st \<and> st \<le> 299)"

text \<open>
  The JSON body of the token endpoint, of the shape the platform documents:
  a string \<^verbatim>\<open>access_token\<close> and a number of seconds \<^verbatim>\<open>expires_in\<close>.
\<close>

record token_data =
  access_token :: string
  expires_in :: int

text \<open>
  What the program does not control. \<open>clock k\<close> is the \<open>k\<close>-th reading of the system
  clock, in epoch milliseconds; the two servers answer the \<open>n\<close>-th request the
  process sends (\<open>n\<close> counted from 0); \<open>development\<close> is
  \<^verbatim>\<open>process.env.NODE_ENV === 'development'\<close>.
\<close>

record env =
  clock :: "nat \<Rightarrow> int"
  auth_server :: "nat \<Rightarrow> http_request \<Rightarrow> token_data fetch_result"
  rest_server :: "nat \<Rightarrow> http_request \<Rightarrow> jsval fetch_result"
  config :: sfmc_config
  development :: bool

record token_cache =
  token :: "string option"
  expiresAt :: int

text \<open>
  The state of the process: the module variable \<^verbatim>\<open>tokenCache\<close>, the number of clock
  readings taken and the requests handed to \<^verbatim>\<open>fetch\<close> so far, oldest first.
\<close>

record state =
  tokenCache :: token_cache
  ticks :: nat
  sent :: "http_request list"

definition initial_state :: state where
  "initial_state = \<lparr> tokenCache = \<lparr> token = None, expiresAt = 0 \<rparr>, ticks = 0, sent = [] \<rparr>"

definition Date_now :: "env \<Rightarrow> state \<Rightarrow> int \<times> state" where
  "Date_now e s = (clock e (ticks s), s\<lparr> ticks := Suc (ticks s) \<rparr>)"

definition fetch ::
  "(nat \<Rightarrow> http_request \<Rightarrow> 'j fetch_result) \<Rightarrow> http_request \<Rightarrow> state \<Rightarrow> 'j fetch_result \<times> state" where
  "fetch server rq s = (server (length (sent s)) rq, s\<lparr> sent := sent s @ [rq] \<rparr>)"

section \<open>The credential cache: \<^verbatim>\<open>getSFMCToken\<close>\<close>

text \<open>
  \<^verbatim>\<open>tokenCache.token && Date.now() < tokenCache.expiresAt\<close>: the clock is read only
  when the token is truthy.
\<close>

definition cache_hit :: "env \<Rightarrow> state \<Rightarrow> bool \<times> state" where
  "cache_hit e s =
     (if falsy (token (tokenCache s)) then (False, s)
      else (let (now, s1) = Date_now e s in (now < expiresAt (tokenCache s), s1)))"

definition token_request :: "sfmc_config \<Rightarrow> http_request" where
  "token_request c =
     \<lparr> url = ''https://'' @ interp (subdomain c) @ ''.auth.marketingcloudapis.com/v2/token'',
       http_method = ''POST'',
       headers = [(''Content-Type'', ''application/json'')],
       body = JObj [(''grant_type'', JStr ''client_credentials''),
                    (''client_id'', opt_val (clientId c)),
                    (''client_secret'', opt_val (clientSecret c)),
                    (''account_id'', opt_val (accountId c))] \<rparr>"

text \<open>
  On a hit the cached token is a non-empty string, which \<open>interp\<close> returns as it is.
  The token is stored before the clock is read for the expiry, as in the source.
\<close>

definition getSFMCToken :: "env \<Rightarrow> state \<Rightarrow> (js_error + string) \<times> state" where
  "getSFMCToken e s =
     (let (hit, s1) = cache_hit e s in
      if hit then (Inr (interp (token (tokenCache s1))), s1)
      else
        (let (response, s2) = fetch (auth_server e) (token_request (config e)) s1 in
         case response of
           Rejected m \<Rightarrow> (Inl (FetchError m), s2)
         | Response st errorText js \<Rightarrow>
             if \<not> ok st then
               (Inl (Error (''SFMC Auth failed: '' @ show_nat st @ '' - '' @ errorText)), s2)
             else
               (case js of
                  None \<Rightarrow> (Inl InvalidJson, s2)
                | Some data \<Rightarrow>
                    (let s3 = s2\<lparr> tokenCache := (tokenCache s2)\<lparr> token := Some (access_token data) \<rparr> \<rparr>;
                         (now, s4) = Date_now e s3
                     in (Inr (access_token data),
                         s4\<lparr> tokenCache := (tokenCache s4)\<lparr> expiresAt := now + (expires_in data - 60) * 1000 \<rparr> \<rparr>)))))"

section \<open>The relay: rows, upsert and handler\<close>

text \<open>
  A row of the data extension, the object literal with the four keys
  \<^verbatim>\<open>'email name'\<close>, \<^verbatim>\<open>'fieldname'\<close>, \<^verbatim>\<open>'field value'\<close> and \<^verbatim>\<open>'EntryDate'\<close>.
\<close>

record data_row =
  email_name :: jsval
  fieldname :: jsval
  field_value :: jsval
  EntryDate :: string

definition row_object :: "data_row \<Rightarrow> jsval" where
  "row_object row =
     JObj [(''email name'', email_name row), (''fieldname'', fieldname row),
           (''field value'', field_value row), (''EntryDate'', JStr (EntryDate row))]"

text \<open>
  The callback of \<^verbatim>\<open>fields.map\<close> in the handler: it reads \<^verbatim>\<open>field.name\<close> and
  \<^verbatim>\<open>field.value\<close>, then takes \<^verbatim>\<open>new Date()\<close>, one clock reading for this field.
\<close>

definition field_to_row :: "env \<Rightarrow> jsval \<Rightarrow> jsval \<Rightarrow> state \<Rightarrow> (js_error + data_row) \<times> state" where
  "field_to_row e emailName field s =
     (case get_prop field ''name'' of
        Inl err \<Rightarrow> (Inl err, s)
      | Inr n \<Rightarrow>
          (case get_prop field ''value'' of
             Inl err \<Rightarrow> (Inl err, s)
           | Inr v \<Rightarrow>
               (let (now, s1) = Date_now e s in
                (Inr \<lparr> email_name = emailName, fieldname = n, field_value = v,
                       EntryDate = toISOString now \<rparr>, s1))))"

text \<open>\<^verbatim>\<open>fields.map(field => ...)\<close>, left to right, stopping at the first exception.\<close>

fun fields_to_rows :: "env \<Rightarrow> jsval \<Rightarrow> jsval list \<Rightarrow> state \<Rightarrow> (js_error + data_row list) \<times> state" where
  "fields_to_rows e emailName [] s = (Inr [], s)"
| "fields_to_rows e emailName (field # rest) s =
     (case field_to_row e emailName field s of
        (Inl err, s1) \<Rightarrow> (Inl err, s1)
      | (Inr row, s1) \<Rightarrow>
          (case fields_to_rows e emailName rest s1 of
             (Inl err, s2) \<Rightarrow> (Inl err, s2)
           | (Inr rows, s2) \<Rightarrow> (Inr (row # rows), s2)))"

definition rowset_url :: "sfmc_config \<Rightarrow> string" where
  "rowset_url c =
     (''https://'' @ interp (subdomain c) @ ''.rest.marketingcloudapis.com/'')
     @ ''hub/v1/dataevents/key:'' @ interp (deExternalKey c) @ ''/rowset''"

definition requestBody :: "data_row list \<Rightarrow> jsval" where
  "requestBody dataRows =
     JArr (map (\<lambda>row. JObj [(''keys'', JObj [(''email name'', email_name row),
                                              (''fieldname'', fieldname row)]),
                             (''values'', row_object row)]) dataRows)"

definition rowset_request :: "sfmc_config \<Rightarrow> string \<Rightarrow> data_row list \<Rightarrow> http_request" where
  "rowset_request c authToken dataRows =
     \<lparr> url = rowset_url c,
       http_method = ''POST'',
       headers = [(''Content-Type'', ''application/json''),
                  (''Authorization'', ''Bearer '' @ authToken)],
       body = requestBody dataRows \<rparr>"

definition insertDataExtensionRows ::
  "env \<Rightarrow> string \<Rightarrow> data_row list \<Rightarrow> state \<Rightarrow> (js_error + jsval) \<times> state" where
  "insertDataExtensionRows e authToken dataRows s =
     (let (response, s1) = fetch (rest_server e) (rowset_request (config e) authToken dataRows) s in
      case response of
        Rejected m \<Rightarrow> (Inl (FetchError m), s1)
      | Response st errorText js \<Rightarrow>
          if \<not> ok st then
            (Inl (Error (''DE Insert failed: '' @ show_nat st @ '' - '' @ errorText)), s1)
          else (case js of None \<Rightarrow> (Inl InvalidJson, s1) | Some result \<Rightarrow> (Inr result, s1)))"

record request =
  req_method :: string
  req_body :: jsval

text \<open>
  The JSON documents the handler answers with: \<^verbatim>\<open>res.status(200).end()\<close> has none;
  \<open>ErrorJson m\<close> is \<^verbatim>\<open>{ error: m }\<close>; \<open>SuccessJson n m r\<close> is
  \<^verbatim>\<open>{ success: true, rowsInserted: n, message: m, result: r }\<close>; \<open>FailureJson err d\<close>
  is \<^verbatim>\<open>{ success: false, error: err.message, details: ... }\<close>, where \<open>d\<close> tells whether
  the stack trace is attached.
\<close>

datatype res_json =
    NoBody
  | ErrorJson string
  | SuccessJson (rowsInserted: nat) (message: string) (result: jsval)
  | FailureJson js_error bool

record response =
  res_status :: nat
  res_headers :: "(string \<times> string) list"
  res_json :: res_json

definition cors_headers :: "(string \<times> string) list" where
  "cors_headers =
     [(''Access-Control-Allow-Origin'', ''*''),
      (''Access-Control-Allow-Methods'', ''POST, OPTIONS''),
      (''Access-Control-Allow-Headers'', ''Content-Type'')]"

definition reply :: "nat \<Rightarrow> res_json \<Rightarrow> response" where
  "reply st j = \<lparr> res_status = st, res_headers = cors_headers, res_json = j \<rparr>"

definition config_missing :: "sfmc_config \<Rightarrow> bool" where
  "config_missing c = (falsy (clientId c) \<or> falsy (clientSecret c) \<or> falsy (subdomain c))"

text \<open>The \<^verbatim>\<open>try\<close> block of the handler; \<open>Inl\<close> is what it throws.\<close>

definition handler_try :: "env \<Rightarrow> request \<Rightarrow> state \<Rightarrow> (js_error + response) \<times> state" where
  "handler_try e req s =
     (if config_missing (config e) then
        (Inl (Error ''Missing SFMC configuration. Please set environment variables.''), s)
      else
        (case get_prop (req_body req) ''emailName'' of
           Inl err \<Rightarrow> (Inl err, s)
         | Inr emailName \<Rightarrow>
             (case get_prop (req_body req) ''fields'' of
                Inl err \<Rightarrow> (Inl err, s)
              | Inr flds \<Rightarrow>
                  if \<not> truthy emailName \<or> \<not> truthy flds \<or> \<not> isArray flds then
                    (Inr (reply 400 (ErrorJson ''Invalid request body. Expected: { emailName, fields }'')), s)
                  else
                    (case fields_to_rows e emailName (elements flds) s of
                       (Inl err, s1) \<Rightarrow> (Inl err, s1)
                     | (Inr dataRows, s1) \<Rightarrow>
                         (case getSFMCToken e s1 of
                            (Inl err, s2) \<Rightarrow> (Inl err, s2)
                          | (Inr authToken, s2) \<Rightarrow>
                              (case insertDataExtensionRows e authToken dataRows s2 of
                                 (Inl err, s3) \<Rightarrow> (Inl err, s3)
                               | (Inr res, s3) \<Rightarrow>
                                   (Inr (reply 200
                                      (SuccessJson (length dataRows)
                                         (''Successfully saved '' @ show_nat (length dataRows)
                                          @ '' row(s) to Data Extension'')
                                         res)), s3)))))))"

definition handler :: "env \<Rightarrow> request \<Rightarrow> state \<Rightarrow> response \<times> state" where
  "handler e req s =
     (if req_method req = ''OPTIONS'' then (reply 200 NoBody, s)
      else if req_method req \<noteq> ''POST'' then (reply 405 (ErrorJson ''Method not allowed''), s)
      else
        (case handler_try e req s of
           (Inr res, s1) \<Rightarrow> (res, s1)
         | (Inl err, s1) \<Rightarrow> (reply 500 (FailureJson err (development e)), s1)))"

section \<open>The widget: \<^verbatim>\<open>collectFieldData\<close> and \<^verbatim>\<open>saveToDataExtension\<close>\<close>

text \<open>
  \<^verbatim>\<open>String.prototype.trim\<close> removes white space and line terminators from both ends;
  below U+0100 these are the code points 9 to 13, 32 and 160.
\<close>

definition isWhiteSpace :: "char \<Rightarrow> bool" where
  "isWhiteSpace c = (of_char c \<in> {9, 10, 11, 12, 13, 32, 160 :: nat})"

definition trim :: "string \<Rightarrow> string" where
  "trim s = rev (dropWhile isWhiteSpace (rev (dropWhile isWhiteSpace s)))"

text \<open>
  \<^verbatim>\<open>String.prototype.toLowerCase\<close>: below U+0100 the letters with a lower-case form
  are A to Z and U+00C0 to U+00DE without the multiplication sign U+00D7, each 32
  below its lower-case form.
\<close>

definition lower_char :: "char \<Rightarrow> char" where
  "lower_char c =
     (let n = of_char c :: nat in
      if (65 \<le> n \<and> n \<le> 90) \<or> (192 \<le> n \<and> n \<le> 222 \<and> n \<noteq> 215) then char_of (n + 32) else c)"

definition toLowerCase :: "string \<Rightarrow> string" where
  "toLowerCase s = map lower_char s"

text \<open>\<^verbatim>\<open>s.replace(/c/g, r)\<close> for a single character \<open>c\<close>.\<close>

definition replace_all :: "char \<Rightarrow> string \<Rightarrow> string \<Rightarrow> string" where
  "replace_all c r s = concat (map (\<lambda>x. if x = c then r else [x]) s)"

definition sanitizeInput :: "string \<Rightarrow> string" where
  "sanitizeInput input =
     replace_all CHR ''/'' ''&#x2F;''
       (replace_all (CHR 0x27) ''&#x27;''
          (replace_all (CHR 0x22) ''&quot;''
             (replace_all CHR ''>'' ''&gt;''
                (replace_all CHR ''<'' ''&lt;'' input))))"

text \<open>
  The form as the widget reads it: the value of the email name input and, for each
  \<^verbatim>\<open>.field-row\<close> in document order, the values of its name and value inputs.
\<close>

record form =
  emailName_input :: string
  field_rows :: "(string \<times> string) list"

record field =
  fname :: string
  fvalue :: string

record save_data =
  data_emailName :: string
  data_fields :: "field list"

text \<open>
  The loop of \<^verbatim>\<open>collectFieldData\<close> over the rows, \<open>acc\<close> being the array
  \<^verbatim>\<open>fields\<close> collected so far. \<open>Inl m\<close> stands for
  \<^verbatim>\<open>showMessage('error', m); return null\<close>.
\<close>

fun collect_rows :: "field list \<Rightarrow> (string \<times> string) list \<Rightarrow> string + field list" where
  "collect_rows acc [] = Inr acc"
| "collect_rows acc ((nameInput, valueInput) # rows) =
     (let n = trim nameInput; v = trim valueInput in
      if n = [] \<or> v = [] then Inl ''All fields must have both a name and a value.''
      else if list_ex (\<lambda>f. toLowerCase (fname f) = toLowerCase n) acc then
        Inl (''Duplicate field name: '' @ [CHR 0x22] @ n @ [CHR 0x22]
             @ ''. Each field name must be unique.'')
      else collect_rows (acc @ [\<lparr> fname = sanitizeInput n, fvalue = sanitizeInput v \<rparr>]) rows)"

definition collectFieldData :: "form \<Rightarrow> string + save_data" where
  "collectFieldData fm =
     (let emailName = trim (emailName_input fm) in
      if emailName = [] then Inl ''Email Name is required.''
      else
        (case collect_rows [] (field_rows fm) of
           Inl m \<Rightarrow> Inl m
         | Inr fs \<Rightarrow> Inr \<lparr> data_emailName = sanitizeInput emailName, data_fields = fs \<rparr>))"

text \<open>
  What the page shows and keeps: the messages shown, oldest first, as pairs of type
  and text; the loading state of the save button; the data kept in
  \<^verbatim>\<open>localStorage\<close>; the requests posted to the backend.
\<close>

record widget =
  messages :: "(string \<times> string) list"
  loading :: bool
  stored :: "save_data option"
  posted :: "http_request list"

definition showMessage :: "string \<Rightarrow> string \<Rightarrow> widget \<Rightarrow> widget" where
  "showMessage ty m w = w\<lparr> messages := messages w @ [(ty, m)] \<rparr>"

definition save_body :: "save_data \<Rightarrow> jsval" where
  "save_body d =
     JObj [(''emailName'', JStr (data_emailName d)),
           (''fields'', JArr (map (\<lambda>f. JObj [(''name'', JStr (fname f)), (''value'', JStr (fvalue f))])
                               (data_fields d)))]"

text \<open>
  \<^verbatim>\<open>callBackendAPI\<close> posts the data to \<^verbatim>\<open>CONFIG.API_ENDPOINT\<close>. The parameter
  \<open>backend\<close> gives what the function makes of the answer: \<open>Inl m\<close> when it throws an
  error with message \<open>m\<close> (the request fails, the body is not JSON, or the status is
  not a success), \<open>Inr b\<close> when it returns \<^verbatim>\<open>result.success\<close>, \<open>b\<close> its truth value.
\<close>

definition callBackendAPI ::
  "(http_request \<Rightarrow> string + bool) \<Rightarrow> save_data \<Rightarrow> widget \<Rightarrow> (string + bool) \<times> widget" where
  "callBackendAPI backend d w =
     (let rq = \<lparr> url = ''/api/save-to-de'', http_method = ''POST'',
                 headers = [(''Content-Type'', ''application/json'')],
                 body = save_body d \<rparr>
      in (backend rq, w\<lparr> posted := posted w @ [rq] \<rparr>))"

definition saveToDataExtension :: "(http_request \<Rightarrow> string + bool) \<Rightarrow> form \<Rightarrow> widget \<Rightarrow> widget" where
  "saveToDataExtension backend fm w =
     (case collectFieldData fm of
        Inl m \<Rightarrow> showMessage ''error'' m w
      | Inr d \<Rightarrow>
          (let w1 = showMessage ''info'' ''Saving to Data Extension...'' (w\<lparr> loading := True \<rparr>);
               (r, w2) = callBackendAPI backend d w1;
               w3 = (case r of
                       Inr True \<Rightarrow>
                         (showMessage ''success''
                            (''Successfully saved '' @ show_nat (length (data_fields d))
                             @ '' field(s) to Data Extension!'') w2)\<lparr> stored := Some d \<rparr>
                     | Inr False \<Rightarrow> showMessage ''error'' ''Error saving data: Failed to save data'' w2
                     | Inl m \<Rightarrow> showMessage ''error'' (''Error saving data: '' @ m) w2)
           in w3\<lparr> loading := False \<rparr>))"

text \<open>
  \<^verbatim>\<open>convertFieldsToDataRows\<close> of the widget that writes to the data extension
  directly: the loop \<^verbatim>\<open>fields.forEach\<close> pushes one row per field and takes
  \<^verbatim>\<open>new Date()\<close> for each. The clock of the browser is modelled as the clock of the
  server is.
\<close>

fun convertFieldsToDataRows :: "env \<Rightarrow> string \<Rightarrow> field list \<Rightarrow> state \<Rightarrow> data_row list \<times> state" where
  "convertFieldsToDataRows e emailName [] s = ([], s)"
| "convertFieldsToDataRows e emailName (f # fs) s =
     (let (now, s1) = Date_now e s;
          (dataRows, s2) = convertFieldsToDataRows e emailName fs s1
      in (\<lparr> email_name = JStr emailName, fieldname = JStr (fname f),
             field_value = JStr (fvalue f), EntryDate = toISOString now \<rparr> # dataRows, s2))"

section \<open>Notions used to state the properties\<close>

text \<open>The property read where it cannot throw.\<close>

definition read_prop :: "jsval \<Rightarrow> string \<Rightarrow> jsval" where
  "read_prop v k = (case get_prop v k of Inl err \<Rightarrow> JUndefined | Inr x \<Rightarrow> x)"

text \<open>
  The bodies that pass the handler's own check: the destructuring does not throw, and
  \<^verbatim>\<open>!emailName || !fields || !Array.isArray(fields)\<close> is false.
\<close>

definition accepted :: "jsval \<Rightarrow> bool" where
  "accepted b =
     (b \<noteq> JUndefined \<and> b \<noteq> JNull \<and> truthy (read_prop b ''emailName'')
      \<and> truthy (read_prop b ''fields'') \<and> isArray (read_prop b ''fields''))"

text \<open>The rows the handler builds from an accepted body.\<close>

definition build_rows :: "env \<Rightarrow> jsval \<Rightarrow> state \<Rightarrow> (js_error + data_row list) \<times> state" where
  "build_rows e b s =
     fields_to_rows e (read_prop b ''emailName'') (elements (read_prop b ''fields'')) s"

text \<open>The row of a field that is stamped with the \<open>k\<close>-th clock reading.\<close>

definition row_at :: "env \<Rightarrow> jsval \<Rightarrow> nat \<Rightarrow> jsval \<Rightarrow> data_row" where
  "row_at e emailName k field =
     \<lparr> email_name = emailName, fieldname = read_prop field ''name'',
       field_value = read_prop field ''value'', EntryDate = toISOString (clock e k) \<rparr>"

text \<open>The field that \<open>collectFieldData\<close> stores for a row of the form.\<close>

definition collected :: "string \<times> string \<Rightarrow> field" where
  "collected row = \<lparr> fname = sanitizeInput (trim (fst row)), fvalue = sanitizeInput (trim (snd row)) \<rparr>"

subsection \<open>Example deployment\<close>

definition example_config :: sfmc_config where
  "example_config =
     SFMC_CONFIG [''SFMC_CLIENT_ID'' \<mapsto> ''id'', ''SFMC_CLIENT_SECRET'' \<mapsto> ''secret'',
                  ''SFMC_SUBDOMAIN'' \<mapsto> ''mc'']"

text \<open>
  A clock that starts at 2026-02-23T10:30:00.000Z and advances one millisecond per
  reading, and servers that answer every request with success.
\<close>

definition example_env :: env where
  "example_env =
     \<lparr> clock = (\<lambda>k. 1771842600000 + int k),
       auth_server = (\<lambda>n rq. Response 200 [] (Some \<lparr> access_token = ''tok'', expires_in = 1080 \<rparr>)),
       rest_server = (\<lambda>n rq. Response 200 [] (Some (JObj []))),
       config = example_config,
       development = False \<rparr>"

definition cached_state :: state where
  "cached_state =
     \<lparr> tokenCache = \<lparr> token = Some ''old'', expiresAt = 1771842600500 \<rparr>, ticks = 0, sent = [] \<rparr>"

text \<open>The same deployment without client secret and subdomain.\<close>

definition unconfigured_env :: env where
  "unconfigured_env = example_env\<lparr> config := SFMC_CONFIG [''SFMC_CLIENT_ID'' \<mapsto> ''id''] \<rparr>"

definition example_request :: request where
  "example_request =
     \<lparr> req_method = ''POST'',
       req_body = JObj [(''emailName'', JStr ''Welcome Email''),
                        (''fields'', JArr [JObj [(''name'', JStr ''subject''), (''value'', JStr ''Hi'')],
                                           JObj [(''name'', JStr ''preheader''), (''value'', JStr ''Hello'')]])] \<rparr>"

text \<open>The token endpoint rejects the credentials.\<close>

definition env_401 :: env where
  "env_401 = example_env\<lparr> auth_server := (\<lambda>n rq. Response 401 ''Unauthorized'' None) \<rparr>"

text \<open>The data endpoint fails on the second request the process sends.\<close>

definition env_upsert_500 :: env where
  "env_upsert_500 =
     example_env\<lparr> rest_server := (\<lambda>n rq. if n = 1 then Response 500 ''Server Error'' None
                                           else Response 200 [] (Some (JObj []))) \<rparr>"

text \<open>The same deployment with a clock that stands still.\<close>

definition frozen_env :: env where
  "frozen_env = example_env\<lparr> clock := (\<lambda>k. 1771842600000) \<rparr>"

text \<open>Requests with no field, with a field without text, and with a name used twice.\<close>

definition empty_fields_request :: request where
  "empty_fields_request =
     \<lparr> req_method = ''POST'',
       req_body = JObj [(''emailName'', JStr ''Welcome Email''), (''fields'', JArr [])] \<rparr>"

definition blank_field_request :: request where
  "blank_field_request =
     \<lparr> req_method = ''POST'',
       req_body = JObj [(''emailName'', JStr ''Welcome Email''),
                        (''fields'', JArr [JObj [(''name'', JStr []), (''value'', JStr [])]])] \<rparr>"

definition duplicate_request :: request where
  "duplicate_request =
     \<lparr> req_method = ''POST'',
       req_body = JObj [(''emailName'', JStr ''Welcome Email''),
                        (''fields'', JArr [JObj [(''name'', JStr ''subject''), (''value'', JStr ''Hi'')],
                                           JObj [(''name'', JStr ''subject''), (''value'', JStr ''Hi2'')]])] \<rparr>"

definition no_email_request :: request where
  "no_email_request =
     \<lparr> req_method = ''POST'',
       req_body = JObj [(''fields'', JArr [JObj [(''name'', JStr ''subject''), (''value'', JStr ''Hi'')]])] \<rparr>"

text \<open>A POST that carries no body.\<close>

definition no_body_request :: request where
  "no_body_request = \<lparr> req_method = ''POST'', req_body = JUndefined \<rparr>"

text \<open>Forms of the widget: a name used twice in different case, and a value left blank.\<close>

definition duplicate_form :: form where
  "duplicate_form =
     \<lparr> emailName_input = ''Welcome Email'',
       field_rows = [(''Subject'', ''Hi''), (''subject '', ''Hi2'')] \<rparr>"

definition blank_form :: form where
  "blank_form =
     \<lparr> emailName_input = ''Welcome Email'',
       field_rows = [(''subject'', ''Hi''), (''preheader'', ''  '')] \<rparr>"

text \<open>A backend that answers every request with success.\<close>

definition example_backend :: "http_request \<Rightarrow> string + bool" where
  "example_backend rq = Inr True"

definition empty_widget :: widget where
  "empty_widget = \<lparr> messages = [], loading = False, stored = None, posted = [] \<rparr>"

text \<open>The characters that \<open>sanitizeInput\<close> replaces.\<close>

definition escaped_chars :: "char set" where
  "escaped_chars = {CHR ''<'', CHR ''>'', CHR 0x22, CHR 0x27, CHR ''/''}"

section \<open>Basic facts\<close>

lemma cache_hit_frame:
  "tokenCache (snd (cache_hit e s)) = tokenCache s" "sent (snd (cache_hit e s)) = sent s"
  by (simp_all add: cache_hit_def Date_now_def split: prod.splits)

lemma cache_hit_True:
  "\<not> falsy (token (tokenCache s)) \<Longrightarrow> clock e (ticks s) < expiresAt (tokenCache s) \<Longrightarrow>
   cache_hit e s = (True, s\<lparr> ticks := Suc (ticks s) \<rparr>)"
  by (simp add: cache_hit_def Date_now_def)

lemma cache_hit_expired:
  "\<not> falsy (token (tokenCache s)) \<Longrightarrow> expiresAt (tokenCache s) \<le> clock e (ticks s) \<Longrightarrow>
   cache_hit e s = (False, s\<lparr> ticks := Suc (ticks s) \<rparr>)"
  by (simp add: cache_hit_def Date_now_def)

lemma cache_hit_empty:
  "falsy (token (tokenCache s)) \<Longrightarrow> cache_hit e s = (False, s)"
  by (simp add: cache_hit_def)

lemma getSFMCToken_hit:
  "cache_hit e s = (True, s1) \<Longrightarrow> getSFMCToken e s = (Inr (interp (token (tokenCache s1))), s1)"
  by (simp add: getSFMCToken_def)

lemma getSFMCToken_miss_sent:
  "cache_hit e s = (False, s1) \<Longrightarrow>
   sent (snd (getSFMCToken e s)) = sent s1 @ [token_request (config e)]"
  by (simp add: getSFMCToken_def fetch_def Date_now_def Let_def
           split: fetch_result.splits option.splits prod.splits)

lemma getSFMCToken_miss_ok:
  "cache_hit e s = (False, s1) \<Longrightarrow>
   auth_server e (length (sent s1)) (token_request (config e)) = Response st tx (Some d) \<Longrightarrow>
   ok st \<Longrightarrow>
   getSFMCToken e s =
     (Inr (access_token d),
      s1\<lparr> tokenCache := \<lparr> token = Some (access_token d),
                            expiresAt = clock e (ticks s1) + (expires_in d - 60) * 1000 \<rparr>,
          ticks := Suc (ticks s1),
          sent := sent s1 @ [token_request (config e)] \<rparr>)"
  by (simp add: getSFMCToken_def fetch_def Date_now_def Let_def)

lemma getSFMCToken_miss_fail:
  "cache_hit e s = (False, s1) \<Longrightarrow>
   auth_server e (length (sent s1)) (token_request (config e)) = Response st tx js \<Longrightarrow>
   \<not> ok st \<Longrightarrow>
   getSFMCToken e s =
     (Inl (Error (''SFMC Auth failed: '' @ show_nat st @ '' - '' @ tx)),
      s1\<lparr> sent := sent s1 @ [token_request (config e)] \<rparr>)"
  by (simp add: getSFMCToken_def fetch_def Let_def)

lemma get_prop_defined:
  "b \<noteq> JUndefined \<Longrightarrow> b \<noteq> JNull \<Longrightarrow> get_prop b k = Inr (read_prop b k)"
  by (cases b) (simp_all add: read_prop_def)

lemma handler_try_accepted:
  "\<not> config_missing (config e) \<Longrightarrow> accepted (req_body req) \<Longrightarrow>
   handler_try e req s =
     (case build_rows e (req_body req) s of
        (Inl err, s1) \<Rightarrow> (Inl err, s1)
      | (Inr dataRows, s1) \<Rightarrow>
          (case getSFMCToken e s1 of
             (Inl err, s2) \<Rightarrow> (Inl err, s2)
           | (Inr authToken, s2) \<Rightarrow>
               (case insertDataExtensionRows e authToken dataRows s2 of
                  (Inl err, s3) \<Rightarrow> (Inl err, s3)
                | (Inr res, s3) \<Rightarrow>
                    (Inr (reply 200
                       (SuccessJson (length dataRows)
                          (''Successfully saved '' @ show_nat (length dataRows)
                           @ '' row(s) to Data Extension'')
                          res)), s3))))"
  by (simp add: handler_try_def accepted_def build_rows_def get_prop_defined)

lemma field_to_row_frame:
  "tokenCache (snd (field_to_row e n f s)) = tokenCache s"
  "sent (snd (field_to_row e n f s)) = sent s"
  by (simp_all add: field_to_row_def Date_now_def split: sum.splits prod.splits)

lemma fields_to_rows_frame:
  "tokenCache (snd (fields_to_rows e n fs s)) = tokenCache s
   \<and> sent (snd (fields_to_rows e n fs s)) = sent s"
proof (induction fs arbitrary: s)
  case Nil
  then show ?case by simp
next
  case (Cons f fs)
  obtain r s1 where f: "field_to_row e n f s = (r, s1)"
    by (cases "field_to_row e n f s")
  have fr: "tokenCache s1 = tokenCache s" "sent s1 = sent s"
    using field_to_row_frame [of e n f s] f by simp_all
  show ?case
  proof (cases r)
    case (Inl err)
    then show ?thesis using f fr by simp
  next
    case (Inr row)
    obtain r2 s2 where g: "fields_to_rows e n fs s1 = (r2, s2)"
      by (cases "fields_to_rows e n fs s1")
    have "tokenCache s2 = tokenCache s1 \<and> sent s2 = sent s1"
      using Cons.IH [of s1] g by simp
    then show ?thesis using f fr Inr g by (cases r2) simp_all
  qed
qed

lemma insert_rows_frame:
  "tokenCache (snd (insertDataExtensionRows e tok rows s)) = tokenCache s"
  "ticks (snd (insertDataExtensionRows e tok rows s)) = ticks s"
  "sent (snd (insertDataExtensionRows e tok rows s)) = sent s @ [rowset_request (config e) tok rows]"
  by (simp_all add: insertDataExtensionRows_def fetch_def Let_def
               split: fetch_result.splits option.splits)

lemma field_to_row_object:
  "f \<noteq> JUndefined \<Longrightarrow> f \<noteq> JNull \<Longrightarrow>
   field_to_row e n f s = (Inr (row_at e n (ticks s) f), s\<lparr> ticks := Suc (ticks s) \<rparr>)"
  by (simp add: field_to_row_def get_prop_defined Date_now_def row_at_def)

lemma fields_to_rows_objects:
  "\<forall>f\<in>set fs. f \<noteq> JUndefined \<and> f \<noteq> JNull \<Longrightarrow>
   fields_to_rows e n fs s =
     (Inr (map (\<lambda>i. row_at e n (ticks s + i) (fs ! i)) [0..<length fs]),
      s\<lparr> ticks := ticks s + length fs \<rparr>)"
proof (induction fs arbitrary: s)
  case Nil
  then show ?case by simp
next
  case (Cons f fs)
  have first: "field_to_row e n f s = (Inr (row_at e n (ticks s) f), s\<lparr> ticks := Suc (ticks s) \<rparr>)"
    using Cons.prems by (simp add: field_to_row_object)
  have others: "fields_to_rows e n fs (s\<lparr> ticks := Suc (ticks s) \<rparr>) =
     (Inr (map (\<lambda>i. row_at e n (Suc (ticks s) + i) (fs ! i)) [0..<length fs]),
      s\<lparr> ticks := Suc (ticks s) + length fs \<rparr>)"
    using Cons.IH [of "s\<lparr> ticks := Suc (ticks s) \<rparr>"] Cons.prems by simp
  have shift: "map (\<lambda>i. row_at e n (ticks s + i) ((f # fs) ! i)) [0..<length (f # fs)] =
      row_at e n (ticks s) f # map (\<lambda>i. row_at e n (Suc (ticks s) + i) (fs ! i)) [0..<length fs]"
    by (simp add: upt_conv_Cons map_Suc_upt [symmetric] del: upt_Suc)
  show ?case
    unfolding shift using first others by simp
qed

lemma fields_to_rows_length:
  "fields_to_rows e n fs s = (Inr rows, s1) \<Longrightarrow>
   length rows = length fs \<and> (\<forall>r\<in>set rows. email_name r = n)"
proof (induction fs arbitrary: s rows s1)
  case Nil
  then show ?case by simp
next
  case (Cons f fs)
  obtain r s0 where a: "field_to_row e n f s = (r, s0)"
    by (cases "field_to_row e n f s")
  obtain r2 s2 where b: "fields_to_rows e n fs s0 = (r2, s2)"
    by (cases "fields_to_rows e n fs s0")
  from Cons.prems a b obtain row rest where
    r: "r = Inr row" and r2: "r2 = Inr rest" and rows: "rows = row # rest"
    by (cases r; cases r2) auto
  have "email_name row = n"
    using a r by (auto simp add: field_to_row_def Date_now_def split: sum.splits)
  moreover have "length rest = length fs \<and> (\<forall>x\<in>set rest. email_name x = n)"
    using Cons.IH [of s0 rest s2] b r2 by simp
  ultimately show ?case using rows by simp
qed

lemma build_rows_frame:
  "build_rows e b s = (r, s1) \<Longrightarrow> tokenCache s1 = tokenCache s \<and> sent s1 = sent s"
  using fields_to_rows_frame [of e "read_prop b ''emailName''" "elements (read_prop b ''fields'')" s]
  by (simp add: build_rows_def)

lemma getSFMCToken_sent_cases:
  "sent (snd (getSFMCToken e s)) = sent s
   \<or> sent (snd (getSFMCToken e s)) = sent s @ [token_request (config e)]"
proof -
  obtain h s1 where c: "cache_hit e s = (h, s1)"
    by (cases "cache_hit e s")
  have s1: "sent s1 = sent s"
    using cache_hit_frame(2) [of e s] c by simp
  show ?thesis
  proof (cases h)
    case True
    then show ?thesis using getSFMCToken_hit [of e s s1] c s1 by simp
  next
    case False
    then show ?thesis using getSFMCToken_miss_sent [of e s s1] c s1 by simp
  qed
qed

lemma insert_rows_fail:
  "rest_server e (length (sent s)) (rowset_request (config e) tok rows) = Response st tx js \<Longrightarrow>
   \<not> ok st \<Longrightarrow>
   insertDataExtensionRows e tok rows s =
     (Inl (Error (''DE Insert failed: '' @ show_nat st @ '' - '' @ tx)),
      s\<lparr> sent := sent s @ [rowset_request (config e) tok rows] \<rparr>)"
  by (simp add: insertDataExtensionRows_def fetch_def)

lemma handler_accepted:
  "req_method req = ''POST'' \<Longrightarrow> \<not> config_missing (config e) \<Longrightarrow> accepted (req_body req) \<Longrightarrow>
   build_rows e (req_body req) s = (Inr rows, s1) \<Longrightarrow>
   getSFMCToken e s1 = (Inr tok, s2) \<Longrightarrow>
   handler e req s =
     (case insertDataExtensionRows e tok rows s2 of
        (Inl err, s3) \<Rightarrow> (reply 500 (FailureJson err (development e)), s3)
      | (Inr res, s3) \<Rightarrow>
          (reply 200 (SuccessJson (length rows)
             (''Successfully saved '' @ show_nat (length rows) @ '' row(s) to Data Extension'')
             res), s3))"
  by (simp add: handler_def handler_try_accepted split: prod.splits sum.splits)

lemma handler_rejected:
  "req_method req = ''POST'' \<Longrightarrow> config_missing (config e) \<or> \<not> accepted (req_body req) \<Longrightarrow>
   snd (handler e req s) = s \<and> res_status (fst (handler e req s)) \<noteq> 200"
proof -
  assume p: "req_method req = ''POST''"
    and r: "config_missing (config e) \<or> \<not> accepted (req_body req)"
  show ?thesis
  proof (cases "config_missing (config e)")
    case True
    then show ?thesis using p by (simp add: handler_def handler_try_def reply_def)
  next
    case False
    then have n: "\<not> accepted (req_body req)" using r by simp
    show ?thesis
    proof (cases "req_body req = JUndefined \<or> req_body req = JNull")
      case True
      then show ?thesis using p False
        by (auto simp add: handler_def handler_try_def reply_def)
    next
      case False
      then have "handler_try e req s =
          (Inr (reply 400 (ErrorJson ''Invalid request body. Expected: { emailName, fields }'')), s)"
        using n \<open>\<not> config_missing (config e)\<close>
        by (auto simp add: handler_try_def accepted_def get_prop_defined)
      then show ?thesis using p by (simp add: handler_def reply_def)
    qed
  qed
qed

lemma handler_status_200:
  "req_method req = ''POST'' \<Longrightarrow> res_status (fst (handler e req s)) = 200 \<Longrightarrow>
   \<exists>rows s1 tok s2 res s3.
     \<not> config_missing (config e) \<and> accepted (req_body req)
     \<and> build_rows e (req_body req) s = (Inr rows, s1)
     \<and> getSFMCToken e s1 = (Inr tok, s2)
     \<and> insertDataExtensionRows e tok rows s2 = (Inr res, s3)
     \<and> handler e req s =
         (reply 200 (SuccessJson (length rows)
            (''Successfully saved '' @ show_nat (length rows) @ '' row(s) to Data Extension'')
            res), s3)"
proof -
  assume p: "req_method req = ''POST''" and ok200: "res_status (fst (handler e req s)) = 200"
  have "\<not> (config_missing (config e) \<or> \<not> accepted (req_body req))"
    using handler_rejected [OF p, of e s] ok200 by blast
  then have cm: "\<not> config_missing (config e)" and acc: "accepted (req_body req)"
    by simp_all
  obtain r s1 where b: "build_rows e (req_body req) s = (r, s1)"
    by (cases "build_rows e (req_body req) s")
  obtain r2 s2 where g: "getSFMCToken e s1 = (r2, s2)"
    by (cases "getSFMCToken e s1")
  have t: "handler_try e req s =
     (case r of Inl err \<Rightarrow> (Inl err, s1)
      | Inr dataRows \<Rightarrow>
          (case r2 of Inl err \<Rightarrow> (Inl err, s2)
           | Inr authToken \<Rightarrow>
               (case insertDataExtensionRows e authToken dataRows s2 of
                  (Inl err, s3) \<Rightarrow> (Inl err, s3)
                | (Inr res, s3) \<Rightarrow>
                    (Inr (reply 200
                       (SuccessJson (length dataRows)
                          (''Successfully saved '' @ show_nat (length dataRows)
                           @ '' row(s) to Data Extension'')
                          res)), s3))))"
    using handler_try_accepted [OF cm acc, of s] b g by (simp split: sum.splits)
  obtain rows where r: "r = Inr rows"
    using t p ok200 by (cases r) (auto simp add: handler_def reply_def)
  obtain tok where r2: "r2 = Inr tok"
    using t r p ok200 by (cases r2) (auto simp add: handler_def reply_def)
  obtain r3 s3 where i: "insertDataExtensionRows e tok rows s2 = (r3, s3)"
    by (cases "insertDataExtensionRows e tok rows s2")
  obtain res where r3: "r3 = Inr res"
    using t r r2 i p ok200 by (cases r3) (auto simp add: handler_def reply_def)
  show ?thesis
    using cm acc b g i r r2 r3 t p by (auto simp add: handler_def)
qed

subsection \<open>The example deployment evaluated\<close>

lemmas iso_eval = toISOString_def civil_from_days_def civil_from_era_def civil_from_year_def
  civil_from_month_def show_year_def pad2_def pad3_def pad4_def pad6_def digit_def

lemmas run_eval = handler_def handler_try_def config_missing_def falsy_def interp_def opt_val_def
  read_prop_def own_prop_def field_to_row_def getSFMCToken_def cache_hit_def Date_now_def fetch_def
  insertDataExtensionRows_def reply_def ok_def initial_state_def

lemmas example_eval = example_env_def example_config_def example_request_def SFMC_CONFIG_def
  or_else_def

lemma example_clock_0: "toISOString 1771842600000 = ''2026-02-23T10:30:00.000Z''"
  by (simp add: iso_eval)

lemma example_clock_1: "toISOString 1771842600001 = ''2026-02-23T10:30:00.001Z''"
  by (simp add: iso_eval)

lemma show_nat_401: "show_nat 401 = ''401''"
  by (simp add: show_nat.simps digit_def)

lemma example_config_complete: "\<not> config_missing example_config"
  by (simp add: example_config_def SFMC_CONFIG_def config_missing_def falsy_def)

lemma example_request_accepted: "accepted (req_body example_request)"
  by (simp add: example_request_def accepted_def read_prop_def own_prop_def)

lemma example_request_fields:
  "read_prop (req_body example_request) ''emailName'' = JStr ''Welcome Email''"
  "elements (read_prop (req_body example_request) ''fields'') =
     [JObj [(''name'', JStr ''subject''), (''value'', JStr ''Hi'')],
      JObj [(''name'', JStr ''preheader''), (''value'', JStr ''Hello'')]]"
  by (simp_all add: example_request_def read_prop_def own_prop_def)

lemma example_request_rows:
  "build_rows e (req_body example_request) s =
     (Inr [row_at e (JStr ''Welcome Email'') (ticks s)
             (JObj [(''name'', JStr ''subject''), (''value'', JStr ''Hi'')]),
           row_at e (JStr ''Welcome Email'') (Suc (ticks s))
             (JObj [(''name'', JStr ''preheader''), (''value'', JStr ''Hello'')])],
      s\<lparr> ticks := ticks s + 2 \<rparr>)"
  unfolding build_rows_def example_request_fields
  by (subst fields_to_rows_objects) (simp_all add: numeral_2_eq_2)

lemma example_status_200:
  "res_status (fst (handler example_env example_request initial_state)) = 200"
  by (simp add: run_eval example_eval)

section \<open>The credential cache\<close>

text \<open>
  C1. When the cache holds a token and the clock reading is strictly before
  \<open>expiresAt\<close>, \<open>getSFMCToken\<close> returns the cached token, sends nothing and leaves the
  cache as it is. When the cache holds no token or the reading is not before
  \<open>expiresAt\<close>, it sends exactly one request, the token exchange; if that is answered
  with success, it returns the new token and the cache holds the new token and the new
  expiry. The token exchange is the POST to \<^verbatim>\<open>/v2/token\<close> on the authentication host
  of the configured subdomain, with the JSON content type and a body that holds the
  grant type \<^verbatim>\<open>client_credentials\<close> and the client id, client secret and account id
  of the configuration.
\<close>

theorem getSFMCToken_cache:
  "(\<forall>tok. token (tokenCache s) = Some tok \<and> tok \<noteq> []
          \<and> clock e (ticks s) < expiresAt (tokenCache s) \<longrightarrow>
      fst (getSFMCToken e s) = Inr tok
      \<and> sent (snd (getSFMCToken e s)) = sent s
      \<and> tokenCache (snd (getSFMCToken e s)) = tokenCache s)
   \<and> (falsy (token (tokenCache s)) \<or> expiresAt (tokenCache s) \<le> clock e (ticks s) \<longrightarrow>
      sent (snd (getSFMCToken e s)) = sent s @ [token_request (config e)]
      \<and> (\<forall>st tx d. auth_server e (length (sent s)) (token_request (config e))
                      = Response st tx (Some d) \<and> ok st \<longrightarrow>
            fst (getSFMCToken e s) = Inr (access_token d)
            \<and> tokenCache (snd (getSFMCToken e s)) =
                \<lparr> token = Some (access_token d),
                  expiresAt = clock e (if falsy (token (tokenCache s)) then ticks s
                                       else Suc (ticks s))
                              + (expires_in d - 60) * 1000 \<rparr>))
   \<and> token_request (config e) =
       \<lparr> url = ''https://''
               @ (case subdomain (config e) of None \<Rightarrow> ''undefined'' | Some sub \<Rightarrow> sub)
               @ ''.auth.marketingcloudapis.com/v2/token'',
         http_method = ''POST'',
         headers = [(''Content-Type'', ''application/json'')],
         body = JObj [(''grant_type'', JStr ''client_credentials''),
                      (''client_id'',
                         (case clientId (config e) of None \<Rightarrow> JUndefined | Some v \<Rightarrow> JStr v)),
                      (''client_secret'',
                         (case clientSecret (config e) of None \<Rightarrow> JUndefined | Some v \<Rightarrow> JStr v)),
                      (''account_id'',
                         (case accountId (config e) of None \<Rightarrow> JUndefined | Some v \<Rightarrow> JStr v))] \<rparr>"
proof (intro conjI allI impI)
  fix tok
  assume h: "token (tokenCache s) = Some tok \<and> tok \<noteq> []
             \<and> clock e (ticks s) < expiresAt (tokenCache s)"
  then have nf: "\<not> falsy (token (tokenCache s))" by (simp add: falsy_def)
  have hit: "cache_hit e s = (True, s\<lparr> ticks := Suc (ticks s) \<rparr>)"
    using nf h by (simp add: cache_hit_True)
  have r: "getSFMCToken e s = (Inr tok, s\<lparr> ticks := Suc (ticks s) \<rparr>)"
    using getSFMCToken_hit [OF hit] h by (simp add: interp_def)
  show "fst (getSFMCToken e s) = Inr tok" using r by simp
  show "sent (snd (getSFMCToken e s)) = sent s" using r by simp
  show "tokenCache (snd (getSFMCToken e s)) = tokenCache s" using r by simp
next
  assume h: "falsy (token (tokenCache s)) \<or> expiresAt (tokenCache s) \<le> clock e (ticks s)"
  obtain s1 where miss: "cache_hit e s = (False, s1)"
    and s1: "s1 = (if falsy (token (tokenCache s)) then s else s\<lparr> ticks := Suc (ticks s) \<rparr>)"
    using h by (cases "falsy (token (tokenCache s))") (simp_all add: cache_hit_empty cache_hit_expired)
  have sent1: "sent s1 = sent s" using s1 by simp
  show "sent (snd (getSFMCToken e s)) = sent s @ [token_request (config e)]"
    using getSFMCToken_miss_sent [OF miss] sent1 by simp
  fix st tx d
  assume a: "auth_server e (length (sent s)) (token_request (config e)) = Response st tx (Some d)
             \<and> ok st"
  have r: "getSFMCToken e s =
     (Inr (access_token d),
      s1\<lparr> tokenCache := \<lparr> token = Some (access_token d),
                            expiresAt = clock e (ticks s1) + (expires_in d - 60) * 1000 \<rparr>,
          ticks := Suc (ticks s1),
          sent := sent s1 @ [token_request (config e)] \<rparr>)"
    using getSFMCToken_miss_ok [OF miss, of st tx d] a sent1 by simp
  show "fst (getSFMCToken e s) = Inr (access_token d)" using r by simp
  show "tokenCache (snd (getSFMCToken e s)) =
          \<lparr> token = Some (access_token d),
            expiresAt = clock e (if falsy (token (tokenCache s)) then ticks s else Suc (ticks s))
                        + (expires_in d - 60) * 1000 \<rparr>"
    using r s1 by simp
next
  show "token_request (config e) =
       \<lparr> url = ''https://''
               @ (case subdomain (config e) of None \<Rightarrow> ''undefined'' | Some sub \<Rightarrow> sub)
               @ ''.auth.marketingcloudapis.com/v2/token'',
         http_method = ''POST'',
         headers = [(''Content-Type'', ''application/json'')],
         body = JObj [(''grant_type'', JStr ''client_credentials''),
                      (''client_id'',
                         (case clientId (config e) of None \<Rightarrow> JUndefined | Some v \<Rightarrow> JStr v)),
                      (''client_secret'',
                         (case clientSecret (config e) of None \<Rightarrow> JUndefined | Some v \<Rightarrow> JStr v)),
                      (''account_id'',
                         (case accountId (config e) of None \<Rightarrow> JUndefined | Some v \<Rightarrow> JStr v))] \<rparr>"
    by (simp add: token_request_def interp_def opt_val_def)
qed

theorem getSFMCToken_cache_witness:
  "fst (getSFMCToken example_env cached_state) = Inr ''old''
   \<and> sent (snd (getSFMCToken example_env cached_state)) = []
   \<and> tokenCache (snd (getSFMCToken example_env cached_state)) = tokenCache cached_state
   \<and> sent (snd (getSFMCToken example_env initial_state)) = [token_request example_config]
   \<and> fst (getSFMCToken example_env initial_state) = Inr ''tok''
   \<and> tokenCache (snd (getSFMCToken example_env initial_state)) =
       \<lparr> token = Some ''tok'', expiresAt = 1771843620000 \<rparr>
   \<and> sent (snd (getSFMCToken example_env initial_state)) =
       [\<lparr> url = ''https://mc.auth.marketingcloudapis.com/v2/token'',
          http_method = ''POST'',
          headers = [(''Content-Type'', ''application/json'')],
          body = JObj [(''grant_type'', JStr ''client_credentials''),
                       (''client_id'', JStr ''id''),
                       (''client_secret'', JStr ''secret''),
                       (''account_id'', JUndefined)] \<rparr>]"
proof -
  have h1: "token (tokenCache cached_state) = Some ''old'' \<and> ''old'' \<noteq> []
            \<and> clock example_env (ticks cached_state) < expiresAt (tokenCache cached_state)"
    by (simp add: cached_state_def example_env_def)
  have h2: "falsy (token (tokenCache initial_state))
            \<or> expiresAt (tokenCache initial_state) \<le> clock example_env (ticks initial_state)"
    by (simp add: initial_state_def falsy_def)
  have h3: "auth_server example_env (length (sent initial_state)) (token_request (config example_env))
              = Response 200 [] (Some \<lparr> access_token = ''tok'', expires_in = 1080 \<rparr>) \<and> ok 200"
    by (simp add: example_env_def ok_def)
  have c: "config example_env = example_config" by (simp add: example_env_def)
  have s0: "sent cached_state = []" "sent initial_state = []"
    by (simp_all add: cached_state_def initial_state_def)
  have f: "falsy (token (tokenCache initial_state))" by (simp add: initial_state_def falsy_def)
  have t: "clock example_env (ticks initial_state)
           + (expires_in \<lparr> access_token = ''tok'', expires_in = 1080 \<rparr> - 60) * 1000
           = 1771843620000"
    by (simp add: example_env_def initial_state_def)
  have parts: "subdomain example_config = Some ''mc''" "clientId example_config = Some ''id''"
    "clientSecret example_config = Some ''secret''" "accountId example_config = None"
    by (simp_all add: example_config_def SFMC_CONFIG_def or_else_def falsy_def)
  show ?thesis
    using getSFMCToken_cache [of cached_state example_env]
      getSFMCToken_cache [of initial_state example_env] h1 h2 h3 c s0 f t parts
    by simp
qed

section \<open>Configuration errors\<close>

text \<open>
  C9. When the client id, the client secret or the subdomain is absent from the
  environment (or empty), every POST is answered with status 500 and the configuration
  error, whatever its body, and the state is untouched: nothing is sent, the clock is
  not read, the cache is as it was.
\<close>

theorem config_error_first:
  "config e = SFMC_CONFIG process_env \<Longrightarrow>
   falsy (process_env ''SFMC_CLIENT_ID'') \<or> falsy (process_env ''SFMC_CLIENT_SECRET'')
     \<or> falsy (process_env ''SFMC_SUBDOMAIN'') \<Longrightarrow>
   req_method req = ''POST'' \<Longrightarrow>
   handler e req s =
     (reply 500 (FailureJson (Error ''Missing SFMC configuration. Please set environment variables.'')
                   (development e)), s)"
  by (auto simp add: handler_def handler_try_def config_missing_def SFMC_CONFIG_def)

theorem config_error_first_witness:
  "handler unconfigured_env example_request initial_state =
     (reply 500 (FailureJson (Error ''Missing SFMC configuration. Please set environment variables.'')
                   False), initial_state)"
proof -
  have c: "config unconfigured_env = SFMC_CONFIG [''SFMC_CLIENT_ID'' \<mapsto> ''id'']"
    by (simp add: unconfigured_env_def)
  have m: "falsy ([''SFMC_CLIENT_ID'' \<mapsto> ''id''] ''SFMC_CLIENT_ID'')
           \<or> falsy ([''SFMC_CLIENT_ID'' \<mapsto> ''id''] ''SFMC_CLIENT_SECRET'')
           \<or> falsy ([''SFMC_CLIENT_ID'' \<mapsto> ''id''] ''SFMC_SUBDOMAIN'')"
    by (simp add: falsy_def)
  have p: "req_method example_request = ''POST''"
    by (simp add: example_request_def)
  have d: "development unconfigured_env = False"
    by (simp add: unconfigured_env_def example_env_def)
  show ?thesis
    using config_error_first [OF c m p, of initial_state] d by simp
qed

section \<open>Expiry of the cached token\<close>

text \<open>
  C8. When \<open>getSFMCToken\<close> finds no usable token and the exchange is answered with
  success, the expiry it stores is the clock reading taken at that moment plus the
  reported validity in seconds less 60, times 1000.
\<close>

theorem token_expiry:
  "cache_hit e s = (False, s1) \<Longrightarrow>
   auth_server e (length (sent s)) (token_request (config e)) = Response st tx (Some d) \<Longrightarrow>
   ok st \<Longrightarrow>
   expiresAt (tokenCache (snd (getSFMCToken e s))) = clock e (ticks s1) + (expires_in d - 60) * 1000
   \<and> ticks (snd (getSFMCToken e s)) = Suc (ticks s1)"
proof -
  assume miss: "cache_hit e s = (False, s1)"
    and a: "auth_server e (length (sent s)) (token_request (config e)) = Response st tx (Some d)"
    and k: "ok st"
  have "sent s1 = sent s"
    using cache_hit_frame(2) [of e s] miss by simp
  then show ?thesis
    using getSFMCToken_miss_ok [OF miss, of st tx d] a k by simp
qed

theorem token_expiry_witness:
  "expiresAt (tokenCache (snd (getSFMCToken example_env initial_state)))
     = 1771842600000 + (1080 - 60) * 1000"
proof -
  have miss: "cache_hit example_env initial_state = (False, initial_state)"
    by (simp add: cache_hit_empty initial_state_def falsy_def)
  have a: "auth_server example_env (length (sent initial_state)) (token_request (config example_env))
             = Response 200 [] (Some \<lparr> access_token = ''tok'', expires_in = 1080 \<rparr>)"
    by (simp add: example_env_def)
  have k: "ok 200"
    by (simp add: ok_def)
  have n: "clock example_env (ticks initial_state) = 1771842600000"
    by (simp add: example_env_def initial_state_def)
  show ?thesis
    using token_expiry [OF miss a k] n by simp
qed

section \<open>Failures of the two upstream calls\<close>

text \<open>
  C5. A POST that passes the handler's checks, finds no usable token and has its token
  exchange answered with a status outside 200 to 299 is answered with status 500 and
  the error \<open>SFMC Auth failed: status - body\<close>; the token request is the only
  request sent and the cache is as it was before the call.
\<close>

theorem auth_failure:
  assumes "req_method req = ''POST''"
    and "\<not> config_missing (config e)"
    and "accepted (req_body req)"
    and "build_rows e (req_body req) s = (Inr rows, s1)"
    and "cache_hit e s1 = (False, s2)"
    and "auth_server e (length (sent s)) (token_request (config e)) = Response st tx js"
    and "\<not> ok st"
  shows "handler e req s =
           (reply 500 (FailureJson (Error (''SFMC Auth failed: '' @ show_nat st @ '' - '' @ tx))
                         (development e)),
            s2\<lparr> sent := sent s @ [token_request (config e)] \<rparr>)
         \<and> tokenCache (snd (handler e req s)) = tokenCache s"
proof -
  have f1: "tokenCache s1 = tokenCache s \<and> sent s1 = sent s"
    using build_rows_frame [OF assms(4)] .
  have f2: "tokenCache s2 = tokenCache s1" "sent s2 = sent s1"
    using cache_hit_frame [of e s1] assms(5) by simp_all
  have tok: "getSFMCToken e s1 =
     (Inl (Error (''SFMC Auth failed: '' @ show_nat st @ '' - '' @ tx)),
      s2\<lparr> sent := sent s2 @ [token_request (config e)] \<rparr>)"
    using getSFMCToken_miss_fail [OF assms(5), of st tx js] assms(6,7) f1 f2 by simp
  have h: "handler e req s =
           (reply 500 (FailureJson (Error (''SFMC Auth failed: '' @ show_nat st @ '' - '' @ tx))
                         (development e)),
            s2\<lparr> sent := sent s @ [token_request (config e)] \<rparr>)"
    using assms(1) handler_try_accepted [OF assms(2,3), of s] assms(4) tok f1 f2
    by (simp add: handler_def)
  show ?thesis using h f1 f2 by simp
qed

theorem auth_failure_witness:
  "fst (handler env_401 example_request initial_state) =
     reply 500 (FailureJson (Error ''SFMC Auth failed: 401 - Unauthorized'') False)
   \<and> tokenCache (snd (handler env_401 example_request initial_state))
       = \<lparr> token = None, expiresAt = 0 \<rparr>"
proof -
  have c: "config env_401 = example_config" "development env_401 = False"
    by (simp_all add: env_401_def example_env_def)
  have p: "req_method example_request = ''POST''"
    by (simp add: example_request_def)
  have m: "\<not> config_missing (config env_401)"
    using example_config_complete c by simp
  have i: "ticks initial_state = 0" "sent initial_state = []"
    "tokenCache initial_state = \<lparr> token = None, expiresAt = 0 \<rparr>"
    by (simp_all add: initial_state_def)
  have miss: "cache_hit env_401 (initial_state\<lparr> ticks := ticks initial_state + 2 \<rparr>)
              = (False, initial_state\<lparr> ticks := ticks initial_state + 2 \<rparr>)"
    by (simp add: cache_hit_empty i falsy_def)
  have a: "auth_server env_401 (length (sent initial_state)) (token_request (config env_401))
             = Response 401 ''Unauthorized'' None"
    by (simp add: env_401_def)
  have k: "\<not> ok 401"
    by (simp add: ok_def)
  show ?thesis
    using auth_failure [OF p m example_request_accepted example_request_rows miss a k]
      c i show_nat_401
    by simp
qed

text \<open>
  C10. A POST that passes the checks, obtains a token by a successful exchange and has
  its upsert answered with a status outside 200 to 299 is answered with status 500 and
  leaves the cache holding the token and expiry that the exchange stored. A later
  accepted POST that starts from this cache, with a non-empty token and a clock reading
  before the expiry, sends exactly one request, the upsert with that token, and no
  token request.
\<close>

theorem upsert_failure_keeps_token:
  assumes "req_method req = ''POST''"
    and "\<not> config_missing (config e)"
    and "accepted (req_body req)"
    and "build_rows e (req_body req) s = (Inr rows, s1)"
    and "cache_hit e s1 = (False, s2)"
    and "auth_server e (length (sent s)) (token_request (config e)) = Response st tx (Some d)"
    and "ok st"
    and "rest_server e (Suc (length (sent s))) (rowset_request (config e) (access_token d) rows)
           = Response st' tx' js'"
    and "\<not> ok st'"
    and "req_method req' = ''POST''"
    and "accepted (req_body req')"
    and "tokenCache t = tokenCache (snd (handler e req s))"
    and "build_rows e (req_body req') t = (Inr rows', t1)"
    and "access_token d \<noteq> []"
    and "clock e (ticks t1) < expiresAt (tokenCache t)"
  shows "handler e req s =
           (reply 500 (FailureJson (Error (''DE Insert failed: '' @ show_nat st' @ '' - '' @ tx'))
                         (development e)),
            s2\<lparr> tokenCache := \<lparr> token = Some (access_token d),
                                  expiresAt = clock e (ticks s2) + (expires_in d - 60) * 1000 \<rparr>,
                ticks := Suc (ticks s2),
                sent := sent s @ [token_request (config e),
                                  rowset_request (config e) (access_token d) rows] \<rparr>)
         \<and> sent (snd (handler e req' t))
             = sent t @ [rowset_request (config e) (access_token d) rows']"
proof -
  have f1: "tokenCache s1 = tokenCache s \<and> sent s1 = sent s"
    using build_rows_frame [OF assms(4)] .
  have f2: "sent s2 = sent s1"
    using cache_hit_frame(2) [of e s1] assms(5) by simp
  define s3 where "s3 = s2\<lparr> tokenCache := \<lparr> token = Some (access_token d),
                                  expiresAt = clock e (ticks s2) + (expires_in d - 60) * 1000 \<rparr>,
                ticks := Suc (ticks s2),
                sent := sent s2 @ [token_request (config e)] \<rparr>"
  have tok: "getSFMCToken e s1 = (Inr (access_token d), s3)"
    unfolding s3_def
    using getSFMCToken_miss_ok [OF assms(5), of st tx d] assms(6,7) f1 f2 by simp
  have len: "length (sent s3) = Suc (length (sent s))"
    using f1 f2 by (simp add: s3_def)
  have ins: "insertDataExtensionRows e (access_token d) rows s3 =
     (Inl (Error (''DE Insert failed: '' @ show_nat st' @ '' - '' @ tx')),
      s3\<lparr> sent := sent s3 @ [rowset_request (config e) (access_token d) rows] \<rparr>)"
    using insert_rows_fail [of e s3 "access_token d" rows st' tx' js'] assms(8,9) len by simp
  have first: "handler e req s =
           (reply 500 (FailureJson (Error (''DE Insert failed: '' @ show_nat st' @ '' - '' @ tx'))
                         (development e)),
            s2\<lparr> tokenCache := \<lparr> token = Some (access_token d),
                                  expiresAt = clock e (ticks s2) + (expires_in d - 60) * 1000 \<rparr>,
                ticks := Suc (ticks s2),
                sent := sent s @ [token_request (config e),
                                  rowset_request (config e) (access_token d) rows] \<rparr>)"
    using handler_accepted [OF assms(1,2,3,4) tok] ins f1 f2 by (simp add: s3_def)
  have cache_t: "tokenCache t = \<lparr> token = Some (access_token d),
                                  expiresAt = clock e (ticks s2) + (expires_in d - 60) * 1000 \<rparr>"
    using assms(12) first by simp
  have g1: "tokenCache t1 = tokenCache t \<and> sent t1 = sent t"
    using build_rows_frame [OF assms(13)] .
  have hit: "cache_hit e t1 = (True, t1\<lparr> ticks := Suc (ticks t1) \<rparr>)"
    using cache_hit_True [of t1 e] g1 cache_t assms(14,15) by (simp add: falsy_def)
  have tok2: "getSFMCToken e t1 = (Inr (access_token d), t1\<lparr> ticks := Suc (ticks t1) \<rparr>)"
    using getSFMCToken_hit [OF hit] g1 cache_t by (simp add: interp_def)
  have "sent (snd (handler e req' t)) =
          sent (snd (insertDataExtensionRows e (access_token d) rows'
                       (t1\<lparr> ticks := Suc (ticks t1) \<rparr>)))"
    using handler_accepted [OF assms(10,2,11,13) tok2] by (simp split: prod.splits sum.splits)
  then have second: "sent (snd (handler e req' t))
                       = sent t @ [rowset_request (config e) (access_token d) rows']"
    using g1 by (simp add: insert_rows_frame)
  show ?thesis using first second by simp
qed

theorem upsert_failure_keeps_token_witness:
  "res_status (fst (handler env_upsert_500 example_request initial_state)) = 500
   \<and> tokenCache (snd (handler env_upsert_500 example_request initial_state))
       = \<lparr> token = Some ''tok'', expiresAt = 1771843620002 \<rparr>
   \<and> length (sent (snd (handler env_upsert_500 example_request
                          (snd (handler env_upsert_500 example_request initial_state)))))
       = Suc (length (sent (snd (handler env_upsert_500 example_request initial_state))))"
proof -
  define t where "t = snd (handler env_upsert_500 example_request initial_state)"
  let ?rows = "[row_at env_upsert_500 (JStr ''Welcome Email'') (ticks initial_state)
                  (JObj [(''name'', JStr ''subject''), (''value'', JStr ''Hi'')]),
                row_at env_upsert_500 (JStr ''Welcome Email'') (Suc (ticks initial_state))
                  (JObj [(''name'', JStr ''preheader''), (''value'', JStr ''Hello'')])]"
  have c: "config env_upsert_500 = example_config" "development env_upsert_500 = False"
    by (simp_all add: env_upsert_500_def example_env_def)
  have p: "req_method example_request = ''POST''"
    by (simp add: example_request_def)
  have m: "\<not> config_missing (config env_upsert_500)"
    using example_config_complete c by simp
  have i: "ticks initial_state = 0" "sent initial_state = []"
    by (simp_all add: initial_state_def)
  have miss: "cache_hit env_upsert_500 (initial_state\<lparr> ticks := ticks initial_state + 2 \<rparr>)
              = (False, initial_state\<lparr> ticks := ticks initial_state + 2 \<rparr>)"
    by (simp add: cache_hit_empty initial_state_def falsy_def)
  have a: "auth_server env_upsert_500 (length (sent initial_state))
             (token_request (config env_upsert_500))
             = Response 200 [] (Some \<lparr> access_token = ''tok'', expires_in = 1080 \<rparr>)"
    by (simp add: env_upsert_500_def example_env_def)
  have k: "ok 200" "\<not> ok 500"
    by (simp_all add: ok_def)
  have u: "rest_server env_upsert_500 (Suc (length (sent initial_state)))
             (rowset_request (config env_upsert_500)
                (access_token \<lparr> access_token = ''tok'', expires_in = 1080 \<rparr>) ?rows)
             = Response 500 ''Server Error'' None"
    by (simp add: env_upsert_500_def i)
  have same: "tokenCache t = tokenCache (snd (handler env_upsert_500 example_request initial_state))"
    by (simp add: t_def)
  have nonempty: "access_token \<lparr> access_token = ''tok'', expires_in = 1080 \<rparr> \<noteq> []"
    by simp
  have evaluated: "ticks t = 3"
    "tokenCache t = \<lparr> token = Some ''tok'', expiresAt = 1771843620002 \<rparr>"
    unfolding t_def
    by (simp_all add: run_eval example_eval env_upsert_500_def)
  have before: "clock env_upsert_500 (ticks (t\<lparr> ticks := ticks t + 2 \<rparr>)) < expiresAt (tokenCache t)"
    using evaluated by (simp add: env_upsert_500_def example_env_def)
  note both = upsert_failure_keeps_token [OF p m example_request_accepted example_request_rows
      miss a k(1) u k(2) p example_request_accepted same example_request_rows nonempty before]
  have r1: "res_status (fst (handler env_upsert_500 example_request initial_state)) = 500"
    using both by (simp add: reply_def)
  have r2: "tokenCache (snd (handler env_upsert_500 example_request initial_state))
              = \<lparr> token = Some ''tok'', expiresAt = 1771843620002 \<rparr>"
    using both by (simp add: env_upsert_500_def example_env_def initial_state_def)
  have r3: "length (sent (snd (handler env_upsert_500 example_request t))) = Suc (length (sent t))"
    using both by simp
  show ?thesis
    using r1 r2 r3 unfolding t_def by simp
qed

section \<open>Rows and the bulk request\<close>

text \<open>
  C6. For a POST that passes the handler's checks and whose \<open>N\<close> fields are objects,
  the handler builds exactly \<open>N\<close> rows, each carrying the email name of the request;
  when it answers with status 200, \<open>rowsInserted\<close> is \<open>N\<close> and the body of the last
  request it sent is made of these rows.
\<close>

theorem rows_per_field:
  assumes "req_method req = ''POST''"
    and "\<not> config_missing (config e)"
    and "accepted (req_body req)"
    and "\<forall>f\<in>set (elements (read_prop (req_body req) ''fields'')). f \<noteq> JUndefined \<and> f \<noteq> JNull"
  shows "\<exists>rows s1.
           build_rows e (req_body req) s = (Inr rows, s1)
           \<and> length rows = length (elements (read_prop (req_body req) ''fields''))
           \<and> (\<forall>r\<in>set rows. email_name r = read_prop (req_body req) ''emailName'')
           \<and> (res_status (fst (handler e req s)) = 200 \<longrightarrow>
                (\<exists>m r. res_json (fst (handler e req s)) =
                          SuccessJson (length (elements (read_prop (req_body req) ''fields''))) m r)
                \<and> body (last (sent (snd (handler e req s)))) = requestBody rows)"
proof -
  let ?fs = "elements (read_prop (req_body req) ''fields'')"
  let ?n = "read_prop (req_body req) ''emailName''"
  obtain rows s1 where b: "build_rows e (req_body req) s = (Inr rows, s1)"
    using fields_to_rows_objects [OF assms(4), of e ?n s] by (simp add: build_rows_def)
  have len: "length rows = length ?fs \<and> (\<forall>r\<in>set rows. email_name r = ?n)"
    using fields_to_rows_length [of e ?n ?fs s rows s1] b by (simp add: build_rows_def)
  have succ: "(\<exists>m r. res_json (fst (handler e req s)) = SuccessJson (length ?fs) m r)
              \<and> body (last (sent (snd (handler e req s)))) = requestBody rows"
    if ok200: "res_status (fst (handler e req s)) = 200"
  proof -
    obtain rows' s1' tok s2 res s3 where
      b': "build_rows e (req_body req) s = (Inr rows', s1')"
      and i: "insertDataExtensionRows e tok rows' s2 = (Inr res, s3)"
      and h: "handler e req s =
         (reply 200 (SuccessJson (length rows')
            (''Successfully saved '' @ show_nat (length rows') @ '' row(s) to Data Extension'')
            res), s3)"
      using handler_status_200 [OF assms(1) ok200] by blast
    have same: "rows' = rows" using b b' by simp
    have "sent s3 = sent s2 @ [rowset_request (config e) tok rows]"
      using insert_rows_frame(3) [of e tok rows s2] i same by simp
    then show ?thesis
      using h same len by (simp add: reply_def rowset_request_def)
  qed
  show ?thesis
    using b len succ by blast
qed

theorem rows_per_field_witness:
  "res_status (fst (handler example_env example_request initial_state)) = 200
   \<and> (\<exists>m r. res_json (fst (handler example_env example_request initial_state)) = SuccessJson 2 m r)
   \<and> (\<exists>rows s1. build_rows example_env (req_body example_request) initial_state = (Inr rows, s1)
                  \<and> length rows = 2)"
proof -
  have p: "req_method example_request = ''POST''"
    by (simp add: example_request_def)
  have m: "\<not> config_missing (config example_env)"
    using example_config_complete by (simp add: example_env_def)
  have o: "\<forall>f\<in>set (elements (read_prop (req_body example_request) ''fields'')).
             f \<noteq> JUndefined \<and> f \<noteq> JNull"
    unfolding example_request_fields by simp
  show ?thesis
    using rows_per_field [OF p m example_request_accepted o, of initial_state]
      example_status_200 example_request_fields(2)
    by auto
qed

text \<open>
  C7. Whatever the request, the handler sends at most a token request followed by at
  most one request to the rowset endpoint, and that one carries all the rows built
  from the request; a POST answered with status 200 has sent it. The rowset request is
  a POST to the rowset address of the configured data extension, and its body is the
  array that holds, for each row in order, the keys (email name and fieldname of the
  row) and the values (the whole row).
\<close>

theorem single_bulk_request:
  "(\<exists>pre batch.
      sent (snd (handler e req s)) = sent s @ pre @ batch
      \<and> (pre = [] \<or> pre = [token_request (config e)])
      \<and> (batch = [] \<or> (\<exists>tok rows s1. build_rows e (req_body req) s = (Inr rows, s1)
                                       \<and> batch = [rowset_request (config e) tok rows]))
      \<and> (req_method req = ''POST'' \<and> res_status (fst (handler e req s)) = 200 \<longrightarrow> batch \<noteq> []))
   \<and> url (rowset_request c authToken dataRows) =
       ''https://'' @ interp (subdomain c) @ ''.rest.marketingcloudapis.com/hub/v1/dataevents/key:''
       @ interp (deExternalKey c) @ ''/rowset''
   \<and> http_method (rowset_request c authToken dataRows) = ''POST''
   \<and> body (rowset_request c authToken dataRows) =
       JArr (map (\<lambda>row. JObj [(''keys'', JObj [(''email name'', email_name row),
                                                (''fieldname'', fieldname row)]),
                               (''values'', JObj [(''email name'', email_name row),
                                                  (''fieldname'', fieldname row),
                                                  (''field value'', field_value row),
                                                  (''EntryDate'', JStr (EntryDate row))])])
                 dataRows)"
proof -
  let ?P = "\<lambda>pre batch.
      sent (snd (handler e req s)) = sent s @ pre @ batch
      \<and> (pre = [] \<or> pre = [token_request (config e)])
      \<and> (batch = [] \<or> (\<exists>tok rows s1. build_rows e (req_body req) s = (Inr rows, s1)
                                       \<and> batch = [rowset_request (config e) tok rows]))
      \<and> (req_method req = ''POST'' \<and> res_status (fst (handler e req s)) = 200 \<longrightarrow> batch \<noteq> [])"
  have first: "\<exists>pre batch. ?P pre batch"
  proof (cases "req_method req = ''POST''")
    case False
    then have "snd (handler e req s) = s" by (simp add: handler_def)
    then have "?P [] []" using False by simp
    then show ?thesis by blast
  next
    case p: True
    show ?thesis
    proof (cases "config_missing (config e) \<or> \<not> accepted (req_body req)")
      case True
      then have "?P [] []" using handler_rejected [OF p True, of s] by simp
      then show ?thesis by blast
    next
      case False
      then have cm: "\<not> config_missing (config e)" and acc: "accepted (req_body req)"
        by simp_all
      obtain r s1 where b: "build_rows e (req_body req) s = (r, s1)"
        by (cases "build_rows e (req_body req) s")
      have f1: "sent s1 = sent s" using build_rows_frame [OF b] by simp
      show ?thesis
      proof (cases r)
        case (Inl err)
        then have "handler e req s = (reply 500 (FailureJson err (development e)), s1)"
          using p handler_try_accepted [OF cm acc, of s] b by (simp add: handler_def)
        then have "?P [] []" using f1 by (simp add: reply_def)
        then show ?thesis by blast
      next
        case (Inr rows)
        obtain r2 s2 where g: "getSFMCToken e s1 = (r2, s2)"
          by (cases "getSFMCToken e s1")
        have f2: "sent s2 = sent s \<or> sent s2 = sent s @ [token_request (config e)]"
          using getSFMCToken_sent_cases [of e s1] g f1 by simp
        show ?thesis
        proof (cases r2)
          case (Inl err)
          then have h: "handler e req s = (reply 500 (FailureJson err (development e)), s2)"
            using p handler_try_accepted [OF cm acc, of s] b Inr g by (simp add: handler_def)
          have "?P [] [] \<or> ?P [token_request (config e)] []"
            using f2 h by (auto simp add: reply_def)
          then show ?thesis by blast
        next
          case tok: (Inr tok)
          have b': "build_rows e (req_body req) s = (Inr rows, s1)" using b Inr by simp
          have g': "getSFMCToken e s1 = (Inr tok, s2)" using g tok by simp
          have "sent (snd (handler e req s)) = sent s2 @ [rowset_request (config e) tok rows]"
            using handler_accepted [OF p cm acc b' g'] insert_rows_frame(3) [of e tok rows s2]
            by (simp split: prod.splits sum.splits)
          then have "?P [] [rowset_request (config e) tok rows]
                     \<or> ?P [token_request (config e)] [rowset_request (config e) tok rows]"
            using f2 b' by auto
          then show ?thesis by blast
        qed
      qed
    qed
  qed
  show ?thesis
    using first
    by (simp add: rowset_request_def rowset_url_def requestBody_def row_object_def)
qed

theorem single_bulk_request_witness:
  "req_method example_request = ''POST''
   \<and> res_status (fst (handler example_env example_request initial_state)) = 200
   \<and> (\<exists>pre tok rows. sent (snd (handler example_env example_request initial_state))
                        = pre @ [rowset_request example_config tok rows])"
proof -
  have p: "req_method example_request = ''POST''"
    by (simp add: example_request_def)
  have c: "config example_env = example_config"
    by (simp add: example_env_def)
  have i: "sent initial_state = []"
    by (simp add: initial_state_def)
  obtain pre batch where
    s: "sent (snd (handler example_env example_request initial_state))
          = sent initial_state @ pre @ batch"
    and b: "batch = [] \<or> (\<exists>tok rows s1.
              build_rows example_env (req_body example_request) initial_state = (Inr rows, s1)
              \<and> batch = [rowset_request (config example_env) tok rows])"
    and n: "req_method example_request = ''POST''
            \<and> res_status (fst (handler example_env example_request initial_state)) = 200
            \<longrightarrow> batch \<noteq> []"
    using single_bulk_request [of example_env example_request initial_state] by blast
  have "batch \<noteq> []"
    using n p example_status_200 by simp
  then obtain tok rows where "batch = [rowset_request example_config tok rows]"
    using b c by auto
  then have "sent (snd (handler example_env example_request initial_state))
               = pre @ [rowset_request example_config tok rows]"
    using s i by simp
  then show ?thesis
    using p example_status_200 by blast
qed

section \<open>Timestamps of the rows\<close>

lemma convertFieldsToDataRows_rows:
  "convertFieldsToDataRows e n fs s =
     (map (\<lambda>i. \<lparr> email_name = JStr n, fieldname = JStr (fname (fs ! i)),
                   field_value = JStr (fvalue (fs ! i)),
                   EntryDate = toISOString (clock e (ticks s + i)) \<rparr>) [0..<length fs],
      s\<lparr> ticks := ticks s + length fs \<rparr>)"
proof (induction fs arbitrary: s)
  case Nil
  then show ?case by simp
next
  case (Cons f fs)
  have shift: "map (\<lambda>i. \<lparr> email_name = JStr n, fieldname = JStr (fname ((f # fs) ! i)),
                   field_value = JStr (fvalue ((f # fs) ! i)),
                   EntryDate = toISOString (clock e (ticks s + i)) \<rparr>) [0..<length (f # fs)] =
      \<lparr> email_name = JStr n, fieldname = JStr (fname f), field_value = JStr (fvalue f),
        EntryDate = toISOString (clock e (ticks s)) \<rparr>
      # map (\<lambda>i. \<lparr> email_name = JStr n, fieldname = JStr (fname (fs ! i)),
                   field_value = JStr (fvalue (fs ! i)),
                   EntryDate = toISOString (clock e (Suc (ticks s) + i)) \<rparr>) [0..<length fs]"
    by (simp add: upt_conv_Cons map_Suc_upt [symmetric] del: upt_Suc)
  show ?case
    unfolding shift
    using Cons.IH [of "s\<lparr> ticks := Suc (ticks s) \<rparr>"] by (simp add: Date_now_def)
qed

text \<open>
  C2, as the specification states it: all rows of one save carry the same timestamp.
  With a clock that advances between two readings the two rows of one save carry
  different timestamps: this is the body of the rowset request of such a save.
\<close>

theorem one_timestamp_per_save_counterexample:
  "body (last (sent (snd (handler example_env example_request initial_state)))) =
     JArr [JObj [(''keys'', JObj [(''email name'', JStr ''Welcome Email''),
                                  (''fieldname'', JStr ''subject'')]),
                 (''values'', JObj [(''email name'', JStr ''Welcome Email''),
                                    (''fieldname'', JStr ''subject''),
                                    (''field value'', JStr ''Hi''),
                                    (''EntryDate'', JStr ''2026-02-23T10:30:00.000Z'')])],
           JObj [(''keys'', JObj [(''email name'', JStr ''Welcome Email''),
                                  (''fieldname'', JStr ''preheader'')]),
                 (''values'', JObj [(''email name'', JStr ''Welcome Email''),
                                    (''fieldname'', JStr ''preheader''),
                                    (''field value'', JStr ''Hello''),
                                    (''EntryDate'', JStr ''2026-02-23T10:30:00.001Z'')])]]"
  by (simp add: run_eval example_eval rowset_request_def requestBody_def row_object_def
        example_clock_0 example_clock_1)

text \<open>
  C2, amended. The clock is read once per field, in the order of the fields: the
  \<open>i\<close>-th row carries the ISO form of the \<open>i\<close>-th reading the save takes, and
  building the rows takes as many readings as there are fields. The rows of one save
  carry the same timestamp when these readings are equal. The rows that the widget
  builds with \<open>convertFieldsToDataRows\<close> are stamped in the same way.
\<close>

theorem timestamp_per_field:
  assumes "\<forall>f\<in>set (elements (read_prop b ''fields'')). f \<noteq> JUndefined \<and> f \<noteq> JNull"
    and "build_rows e b s = (Inr rows, s1)"
  shows "length rows = length (elements (read_prop b ''fields''))
         \<and> ticks s1 = ticks s + length rows
         \<and> (\<forall>i<length rows. EntryDate (rows ! i) = toISOString (clock e (ticks s + i)))
         \<and> ((\<forall>i<length rows. clock e (ticks s + i) = t) \<longrightarrow>
              (\<forall>r\<in>set rows. EntryDate r = toISOString t))
         \<and> (\<forall>i<length fs. EntryDate (fst (convertFieldsToDataRows e n fs s) ! i)
                              = toISOString (clock e (ticks s + i)))"
proof -
  have widget: "EntryDate (fst (convertFieldsToDataRows e n fs s) ! i)
                  = toISOString (clock e (ticks s + i))" if "i < length fs" for i
    using that by (simp add: convertFieldsToDataRows_rows)
  let ?fs = "elements (read_prop b ''fields'')"
  let ?n = "read_prop b ''emailName''"
  have built: "rows = map (\<lambda>i. row_at e ?n (ticks s + i) (?fs ! i)) [0..<length ?fs]"
    and after: "s1 = s\<lparr> ticks := ticks s + length ?fs \<rparr>"
    using fields_to_rows_objects [OF assms(1), of e ?n s] assms(2)
    by (simp_all add: build_rows_def)
  have len: "length rows = length ?fs"
    using built by simp
  have each: "EntryDate (rows ! i) = toISOString (clock e (ticks s + i))" if "i < length rows" for i
    using that built by (simp add: row_at_def)
  have equal: "EntryDate r = toISOString t"
    if same: "\<forall>i<length rows. clock e (ticks s + i) = t" and r: "r \<in> set rows" for r
  proof -
    obtain i where i: "i < length rows" "r = rows ! i"
      using r by (auto simp add: in_set_conv_nth)
    show ?thesis using each [OF i(1)] same i by simp
  qed
  show ?thesis
    using len after each equal widget by simp
qed

theorem timestamp_per_field_witness:
  "map EntryDate (projr (fst (build_rows frozen_env (req_body example_request) initial_state)))
     = [''2026-02-23T10:30:00.000Z'', ''2026-02-23T10:30:00.000Z'']
   \<and> ticks (snd (build_rows frozen_env (req_body example_request) initial_state)) = 2
   \<and> EntryDate (fst (convertFieldsToDataRows frozen_env ''Welcome Email''
                       [\<lparr> fname = ''subject'', fvalue = ''Hi'' \<rparr>,
                        \<lparr> fname = ''preheader'', fvalue = ''Hello'' \<rparr>] initial_state) ! 1)
       = ''2026-02-23T10:30:00.000Z''"
proof -
  let ?rows = "[row_at frozen_env (JStr ''Welcome Email'') (ticks initial_state)
                  (JObj [(''name'', JStr ''subject''), (''value'', JStr ''Hi'')]),
                row_at frozen_env (JStr ''Welcome Email'') (Suc (ticks initial_state))
                  (JObj [(''name'', JStr ''preheader''), (''value'', JStr ''Hello'')])]"
  let ?fs = "[\<lparr> fname = ''subject'', fvalue = ''Hi'' \<rparr>, \<lparr> fname = ''preheader'', fvalue = ''Hello'' \<rparr>]"
  have o: "\<forall>f\<in>set (elements (read_prop (req_body example_request) ''fields'')).
             f \<noteq> JUndefined \<and> f \<noteq> JNull"
    unfolding example_request_fields by simp
  have b: "build_rows frozen_env (req_body example_request) initial_state
             = (Inr ?rows, initial_state\<lparr> ticks := ticks initial_state + 2 \<rparr>)"
    by (rule example_request_rows)
  have still: "\<forall>i<length ?rows. clock frozen_env (ticks initial_state + i) = 1771842600000"
    by (simp add: frozen_env_def)
  note all = timestamp_per_field [OF o b, where t = 1771842600000 and fs = ?fs
      and n = "''Welcome Email''"]
  have server: "\<forall>r\<in>set ?rows. EntryDate r = toISOString 1771842600000"
    using all still by blast
  have "(1::nat) < length ?fs"
    by simp
  then have "EntryDate (fst (convertFieldsToDataRows frozen_env ''Welcome Email'' ?fs initial_state) ! 1)
               = toISOString (clock frozen_env (ticks initial_state + 1))"
    using all by blast
  then have widget: "EntryDate (fst (convertFieldsToDataRows frozen_env ''Welcome Email'' ?fs
                                       initial_state) ! 1) = toISOString 1771842600000"
    by (simp add: frozen_env_def)
  show ?thesis
    using b server widget by (simp add: example_clock_0 initial_state_def)
qed

section \<open>Validation\<close>

lemma replace_all_absent: "c \<notin> set s \<Longrightarrow> replace_all c r s = s"
  by (induction s) (auto simp add: replace_all_def)

lemma sanitizeInput_plain: "set s \<inter> escaped_chars = {} \<Longrightarrow> sanitizeInput s = s"
  by (simp add: sanitizeInput_def escaped_chars_def replace_all_absent)

lemma collect_rows_blank:
  "(n, v) \<in> set rows \<Longrightarrow> trim n = [] \<or> trim v = [] \<Longrightarrow> \<exists>m. collect_rows acc rows = Inl m"
proof (induction rows arbitrary: acc)
  case Nil
  then show ?case by simp
next
  case (Cons row rows)
  obtain n' v' where row: "row = (n', v')" by (cases row)
  show ?case
  proof (cases "row = (n, v)")
    case True
    then show ?thesis using Cons.prems(2) by auto
  next
    case False
    then have "(n, v) \<in> set rows" using Cons.prems(1) by simp
    then have "\<exists>m. collect_rows (acc @ [collected (n', v')]) rows = Inl m"
      using Cons.IH Cons.prems(2) by blast
    then show ?thesis using row by (auto simp add: Let_def collected_def)
  qed
qed

lemma collect_rows_distinct:
  "collect_rows acc rows = Inr fs \<Longrightarrow> j < length rows \<Longrightarrow>
   f \<in> set acc \<union> set (map collected (take j rows)) \<Longrightarrow>
   toLowerCase (fname f) \<noteq> toLowerCase (trim (fst (rows ! j)))"
proof (induction rows arbitrary: acc j)
  case Nil
  then show ?case by simp
next
  case (Cons row rows)
  obtain n v where row: "row = (n, v)" by (cases row)
  have fresh: "\<not> list_ex (\<lambda>f. toLowerCase (fname f) = toLowerCase (trim n)) acc"
    and rest: "collect_rows (acc @ [collected (n, v)]) rows = Inr fs"
    using Cons.prems(1) row by (auto simp add: Let_def collected_def split: if_splits)
  show ?case
  proof (cases j)
    case 0
    then have "f \<in> set acc" using Cons.prems(3) by simp
    then show ?thesis using fresh 0 row by (auto simp add: list_ex_iff)
  next
    case (Suc k)
    then have k: "k < length rows" using Cons.prems(2) by simp
    have "f \<in> set (acc @ [collected (n, v)]) \<union> set (map collected (take k rows))"
      using Cons.prems(3) Suc row by auto
    then show ?thesis using Cons.IH [OF rest k] Suc by simp
  qed
qed

lemma save_rejected:
  "collectFieldData fm = Inl m \<Longrightarrow> posted (saveToDataExtension backend fm w) = posted w"
  by (simp add: saveToDataExtension_def showMessage_def)

text \<open>
  C3, as the specification states it: a request with no field, or with a field whose
  name or value is empty, fails validation and nothing is sent. The handler accepts
  both: it exchanges a token, sends the upsert and answers with status 200.
\<close>

theorem empty_fields_rejected_counterexample:
  "handler example_env empty_fields_request initial_state =
     (reply 200 (SuccessJson 0 ''Successfully saved 0 row(s) to Data Extension'' (JObj [])),
      \<lparr> tokenCache = \<lparr> token = Some ''tok'', expiresAt = 1771843620000 \<rparr>,
        ticks = 1,
        sent = [token_request example_config, rowset_request example_config ''tok'' []] \<rparr>)
   \<and> res_status (fst (handler example_env blank_field_request initial_state)) = 200
   \<and> length (sent (snd (handler example_env blank_field_request initial_state))) = 2"
  by (simp add: run_eval example_eval empty_fields_request_def blank_field_request_def
        show_nat.simps digit_def)

text \<open>
  C3, amended. A POST whose \<open>emailName\<close> is missing or falsy, or whose \<open>fields\<close> is
  missing, falsy or not an array (a POST without a body among them), is answered by the
  handler without anything being sent: with status 500 and the configuration error
  when the client id, the client secret or the subdomain is missing; otherwise with
  status 500 and the type error of the destructuring when the body is absent or null;
  otherwise with status 400. The widget rejects a form that has a field whose name or
  value is empty after trimming, and then posts nothing to the backend.
\<close>

theorem validation_checks:
  "(req_method req = ''POST''
      \<and> (\<not> truthy (read_prop (req_body req) ''emailName'')
           \<or> \<not> truthy (read_prop (req_body req) ''fields'')
           \<or> \<not> isArray (read_prop (req_body req) ''fields'')) \<longrightarrow>
      handler e req s =
        (if config_missing (config e) then
           reply 500 (FailureJson
             (Error ''Missing SFMC configuration. Please set environment variables.'')
             (development e))
         else if req_body req = JUndefined \<or> req_body req = JNull then
           reply 500 (FailureJson TypeError (development e))
         else reply 400 (ErrorJson ''Invalid request body. Expected: { emailName, fields }''),
         s))
   \<and> ((n, v) \<in> set (field_rows fm) \<and> (trim n = [] \<or> trim v = []) \<longrightarrow>
        (\<exists>m. collectFieldData fm = Inl m)
        \<and> posted (saveToDataExtension backend fm w) = posted w)"
proof (intro conjI impI)
  assume a: "req_method req = ''POST''
      \<and> (\<not> truthy (read_prop (req_body req) ''emailName'')
           \<or> \<not> truthy (read_prop (req_body req) ''fields'')
           \<or> \<not> isArray (read_prop (req_body req) ''fields''))"
  show "handler e req s =
        (if config_missing (config e) then
           reply 500 (FailureJson
             (Error ''Missing SFMC configuration. Please set environment variables.'')
             (development e))
         else if req_body req = JUndefined \<or> req_body req = JNull then
           reply 500 (FailureJson TypeError (development e))
         else reply 400 (ErrorJson ''Invalid request body. Expected: { emailName, fields }''),
         s)"
  proof (cases "config_missing (config e)")
    case True
    then show ?thesis using a by (simp add: handler_def handler_try_def)
  next
    case cm: False
    show ?thesis
    proof (cases "req_body req = JUndefined \<or> req_body req = JNull")
      case True
      then have "handler_try e req s = (Inl TypeError, s)"
        using cm by (auto simp add: handler_try_def)
      then show ?thesis using a cm True by (simp add: handler_def)
    next
      case False
      then have "handler_try e req s =
          (Inr (reply 400 (ErrorJson ''Invalid request body. Expected: { emailName, fields }'')), s)"
        using a cm by (auto simp add: handler_try_def get_prop_defined)
      then show ?thesis using a cm False by (simp add: handler_def)
    qed
  qed
next
  assume b: "(n, v) \<in> set (field_rows fm) \<and> (trim n = [] \<or> trim v = [])"
  then obtain m where m: "collect_rows [] (field_rows fm) = Inl m"
    using collect_rows_blank [of n v "field_rows fm" "[]"] by blast
  then have r: "\<exists>m. collectFieldData fm = Inl m"
    by (simp add: collectFieldData_def Let_def)
  then show "\<exists>m. collectFieldData fm = Inl m" .
  show "posted (saveToDataExtension backend fm w) = posted w"
    using r save_rejected by blast
qed

theorem validation_checks_witness:
  "handler example_env no_email_request initial_state =
     (reply 400 (ErrorJson ''Invalid request body. Expected: { emailName, fields }''), initial_state)
   \<and> handler example_env no_body_request initial_state =
       (reply 500 (FailureJson TypeError False), initial_state)
   \<and> handler unconfigured_env no_email_request initial_state =
       (reply 500 (FailureJson
          (Error ''Missing SFMC configuration. Please set environment variables.'') False),
        initial_state)
   \<and> (\<exists>m. collectFieldData blank_form = Inl m)
   \<and> posted (saveToDataExtension example_backend blank_form empty_widget) = []"
proof -
  have a: "req_method no_email_request = ''POST''
      \<and> (\<not> truthy (read_prop (req_body no_email_request) ''emailName'')
           \<or> \<not> truthy (read_prop (req_body no_email_request) ''fields'')
           \<or> \<not> isArray (read_prop (req_body no_email_request) ''fields''))"
    by (simp add: no_email_request_def read_prop_def own_prop_def)
  have a': "req_method no_body_request = ''POST''
      \<and> (\<not> truthy (read_prop (req_body no_body_request) ''emailName'')
           \<or> \<not> truthy (read_prop (req_body no_body_request) ''fields'')
           \<or> \<not> isArray (read_prop (req_body no_body_request) ''fields''))"
    by (simp add: no_body_request_def read_prop_def)
  have shape: "req_body no_email_request \<noteq> JUndefined" "req_body no_email_request \<noteq> JNull"
    "req_body no_body_request = JUndefined"
    by (simp_all add: no_email_request_def no_body_request_def)
  have conf: "\<not> config_missing (config example_env)" "config_missing (config unconfigured_env)"
    "development example_env = False" "development unconfigured_env = False"
    using example_config_complete
    by (simp_all add: example_env_def unconfigured_env_def SFMC_CONFIG_def config_missing_def
          falsy_def)
  have b: "(''preheader'', ''  '') \<in> set (field_rows blank_form)
           \<and> (trim ''preheader'' = [] \<or> trim ''  '' = [])"
    by (simp add: blank_form_def trim_def isWhiteSpace_def)
  have p: "posted empty_widget = []"
    by (simp add: empty_widget_def)
  show ?thesis
    using validation_checks [of no_email_request example_env initial_state "''preheader''" "''  ''"
        blank_form example_backend empty_widget]
      validation_checks [of no_body_request example_env initial_state "''preheader''" "''  ''"
        blank_form example_backend empty_widget]
      validation_checks [of no_email_request unconfigured_env initial_state "''preheader''" "''  ''"
        blank_form example_backend empty_widget]
      a a' shape conf b p
    by simp
qed

text \<open>
  The widget compares the lower-cased new name with the lower-cased names it has stored,
  and it stores them after \<open>sanitizeInput\<close>. A repeated name that contains one of the
  replaced characters is therefore not found again.
\<close>

lemma widget_escaped_duplicate:
  "collectFieldData \<lparr> emailName_input = ''Welcome Email'',
                      field_rows = [(''a/b'', ''x''), (''a/b'', ''y'')] \<rparr> =
     Inr \<lparr> data_emailName = ''Welcome Email'',
           data_fields = [\<lparr> fname = ''a&#x2F;b'', fvalue = ''x'' \<rparr>,
                          \<lparr> fname = ''a&#x2F;b'', fvalue = ''y'' \<rparr>] \<rparr>"
  by (simp add: collectFieldData_def trim_def isWhiteSpace_def toLowerCase_def lower_char_def
        sanitizeInput_def replace_all_def char_of_eq_iff)

text \<open>
  C4, as the specification states it: a request with two fields of the same name fails
  validation before anything is sent. The handler accepts the request of the
  specification's own example and sends both rows upstream.
\<close>

theorem duplicate_names_rejected_counterexample:
  "res_status (fst (handler example_env duplicate_request initial_state)) = 200
   \<and> body (last (sent (snd (handler example_env duplicate_request initial_state)))) =
       JArr [JObj [(''keys'', JObj [(''email name'', JStr ''Welcome Email''),
                                    (''fieldname'', JStr ''subject'')]),
                   (''values'', JObj [(''email name'', JStr ''Welcome Email''),
                                      (''fieldname'', JStr ''subject''),
                                      (''field value'', JStr ''Hi''),
                                      (''EntryDate'', JStr ''2026-02-23T10:30:00.000Z'')])],
             JObj [(''keys'', JObj [(''email name'', JStr ''Welcome Email''),
                                    (''fieldname'', JStr ''subject'')]),
                   (''values'', JObj [(''email name'', JStr ''Welcome Email''),
                                      (''fieldname'', JStr ''subject''),
                                      (''field value'', JStr ''Hi2''),
                                      (''EntryDate'', JStr ''2026-02-23T10:30:00.001Z'')])]]"
  by (simp add: run_eval example_eval duplicate_request_def rowset_request_def requestBody_def
        row_object_def example_clock_0 example_clock_1)

text \<open>
  C4, amended. The widget rejects a form in which two fields have names that are equal
  after trimming and lower-casing, the earlier of them free of the characters that
  \<open>sanitizeInput\<close> replaces, and then posts nothing to the backend.
\<close>

theorem widget_rejects_duplicates:
  assumes "i < j"
    and "j < length (field_rows fm)"
    and "toLowerCase (trim (fst (field_rows fm ! i))) = toLowerCase (trim (fst (field_rows fm ! j)))"
    and "set (trim (fst (field_rows fm ! i))) \<inter> escaped_chars = {}"
  shows "(\<exists>m. collectFieldData fm = Inl m)
         \<and> posted (saveToDataExtension backend fm w) = posted w"
proof -
  have no: "collect_rows [] (field_rows fm) \<noteq> Inr fs" for fs
  proof
    assume ok: "collect_rows [] (field_rows fm) = Inr fs"
    have "field_rows fm ! i \<in> set (take j (field_rows fm))"
      using assms(1,2) by (auto simp add: in_set_conv_nth)
    then have "collected (field_rows fm ! i) \<in> set [] \<union> set (map collected (take j (field_rows fm)))"
      by simp
    then have "toLowerCase (fname (collected (field_rows fm ! i)))
                 \<noteq> toLowerCase (trim (fst (field_rows fm ! j)))"
      using collect_rows_distinct [OF ok assms(2)] by blast
    moreover have "fname (collected (field_rows fm ! i)) = trim (fst (field_rows fm ! i))"
      using sanitizeInput_plain [OF assms(4)] by (simp add: collected_def)
    ultimately show False using assms(3) by simp
  qed
  have r: "\<exists>m. collectFieldData fm = Inl m"
  proof (cases "collect_rows [] (field_rows fm)")
    case (Inl m)
    then show ?thesis by (simp add: collectFieldData_def Let_def)
  next
    case (Inr fs)
    then show ?thesis using no by simp
  qed
  show ?thesis
    using r save_rejected by blast
qed

theorem widget_rejects_duplicates_witness:
  "(\<exists>m. collectFieldData duplicate_form = Inl m)
   \<and> posted (saveToDataExtension example_backend duplicate_form empty_widget) = []"
proof -
  have rows: "field_rows duplicate_form = [(''Subject'', ''Hi''), (''subject '', ''Hi2'')]"
    by (simp add: duplicate_form_def)
  have o: "(0::nat) < 1"
    by simp
  have l: "1 < length (field_rows duplicate_form)"
    by (simp add: rows)
  have same: "toLowerCase (trim (fst (field_rows duplicate_form ! 0)))
                = toLowerCase (trim (fst (field_rows duplicate_form ! 1)))"
    by (simp add: rows trim_def isWhiteSpace_def toLowerCase_def lower_char_def char_of_eq_iff)
  have plain: "set (trim (fst (field_rows duplicate_form ! 0))) \<inter> escaped_chars = {}"
    by (simp add: rows trim_def isWhiteSpace_def escaped_chars_def)
  have p: "posted empty_widget = []"
    by (simp add: empty_widget_def)
  show ?thesis
    using widget_rejects_duplicates [OF o l same plain, of example_backend empty_widget] p
    by simp
qed

end
